theory Spec2Isabelle
  imports Main
begin

section \<open>Strings and documents\<close>

text \<open>
  A JavaScript string is a sequence of UTF-16 code units. It is modelled as a
  \<^typ>\<open>string\<close>, one \<^typ>\<open>char\<close> per code unit, for the code units below 256.
  In that range the white space of \<^verbatim>\<open>String.prototype.trim\<close> and of the regular
  expression class \<^verbatim>\<open>\s\<close> is TAB, LF, VT, FF, CR, SPACE and NBSP, and the class
  \<^verbatim>\<open>\w\<close> is the ASCII letters, the digits and the underscore.
\<close>

definition isWhiteSpace :: "char \<Rightarrow> bool" where
  "isWhiteSpace c = (c \<in> set [CHR 0x09, CHR 0x0A, CHR 0x0B, CHR 0x0C, CHR 0x0D, CHR 0x20, CHR 0xA0])"

definition isWordChar :: "char \<Rightarrow> bool" where
  "isWordChar c = (c \<in> set ''abcdefghijklmnopqrstuvwxyzABCDEFGHIJKLMNOPQRSTUVWXYZ0123456789_'')"

definition trim :: "string \<Rightarrow> string" where
  "trim s = rev (dropWhile isWhiteSpace (rev (dropWhile isWhiteSpace s)))"

definition startsWith :: "string \<Rightarrow> string \<Rightarrow> bool" where
  "startsWith s p = (take (length p) s = p)"

definition endsWith :: "string \<Rightarrow> string \<Rightarrow> bool" where
  "endsWith s p = (length p \<le> length s \<and> drop (length s - length p) s = p)"

text \<open>\<^verbatim>\<open>s.includes(sub)\<close>: \<open>sub\<close> occurs in \<open>s\<close> at some offset.\<close>

fun includesStr :: "string \<Rightarrow> string \<Rightarrow> bool" where
  "includesStr [] sub = (sub = [])"
| "includesStr (c # cs) sub = (startsWith (c # cs) sub \<or> includesStr cs sub)"

text \<open>
  A text document of the editor: its lines (without their terminators) and the
  line terminator that \<^verbatim>\<open>getText()\<close> puts between them. \<^verbatim>\<open>lineAt\<close> raises
  an error for a line number outside the document (\<open>IllegalLine\<close>), and the
  constructor of a position raises one for a negative argument (\<open>IllegalArgument\<close>).
  \<open>Rejected\<close> is the error of an awaited call of the editor whose promise is rejected.
\<close>

datatype endOfLine = LF | CRLF

record textDocument =
  docLines :: "string list"
  docEol :: endOfLine

datatype error = IllegalLine | IllegalArgument | Rejected

definition lineCount :: "textDocument \<Rightarrow> nat" where
  "lineCount d = length (docLines d)"

definition lineAt :: "textDocument \<Rightarrow> nat \<Rightarrow> error + string" where
  "lineAt d n = (if n < lineCount d then Inr (docLines d ! n) else Inl IllegalLine)"

fun joinWith :: "string \<Rightarrow> string list \<Rightarrow> string" where
  "joinWith sep [] = []"
| "joinWith sep [x] = x"
| "joinWith sep (x # y # ys) = x @ sep @ joinWith sep (y # ys)"

definition eolText :: "endOfLine \<Rightarrow> string" where
  "eolText e = (case e of LF \<Rightarrow> [CHR 0x0A] | CRLF \<Rightarrow> [CHR 0x0D, CHR 0x0A])"

definition getText :: "textDocument \<Rightarrow> string" where
  "getText d = joinWith (eolText (docEol d)) (docLines d)"

section \<open>Regular expressions\<close>

text \<open>
  The regular expressions of the source are modelled one by one. A pattern is a
  function that, for a subject string and an offset, returns the end offset of the
  match that starts at this offset together with the text of capture group 1 (empty
  for a pattern without a group), or nothing when the pattern does not match there.
  Every quantifier of the source's expressions is greedy and is followed by an atom
  that cannot match a character of the quantified class, so the longest run is the
  only candidate; the one exception, the final \<^verbatim>\<open>\b\<close> of the word pattern, is
  modelled with its backtracking.

  \<open>regexExec\<close> is \<^verbatim>\<open>RegExp.prototype.exec\<close>: the leftmost offset from
  \<open>lastIndex\<close> on where the pattern matches. The result carries
  \<^verbatim>\<open>match.index\<close>, \<^verbatim>\<open>match[0]\<close> and \<^verbatim>\<open>match[1]\<close>. For an expression
  without the \<^verbatim>\<open>g\<close> flag, and for \<^verbatim>\<open>String.prototype.match\<close> and
  \<^verbatim>\<open>RegExp.prototype.test\<close>, \<open>lastIndex\<close> is 0.
\<close>

definition charAt :: "string \<Rightarrow> nat \<Rightarrow> char option" where
  "charAt s p = (if p < length s then Some (s ! p) else None)"

definition substring :: "string \<Rightarrow> nat \<Rightarrow> nat \<Rightarrow> string" where
  "substring s a b = take (b - a) (drop a s)"

definition wordAt :: "string \<Rightarrow> nat \<Rightarrow> bool" where
  "wordAt s p = (p < length s \<and> isWordChar (s ! p))"

text \<open>\<^verbatim>\<open>\b\<close>: exactly one of the characters before and at the offset is a word character.\<close>

definition wordBoundary :: "string \<Rightarrow> nat \<Rightarrow> bool" where
  "wordBoundary s p = ((0 < p \<and> wordAt s (p - 1)) \<noteq> wordAt s p)"

text \<open>The offset after the longest run of characters satisfying \<open>P\<close> that starts at \<open>p\<close>.\<close>

definition skipWhile :: "(char \<Rightarrow> bool) \<Rightarrow> string \<Rightarrow> nat \<Rightarrow> nat" where
  "skipWhile P s p = p + length (takeWhile P (drop p s))"

definition literalAt :: "string \<Rightarrow> string \<Rightarrow> nat \<Rightarrow> bool" where
  "literalAt lit s p = (p \<le> length s \<and> startsWith (drop p s) lit)"

type_synonym pattern = "string \<Rightarrow> nat \<Rightarrow> (nat \<times> string) option"

record regExpMatch =
  m_index :: nat
  m_text :: string
  m_group :: string

definition regexExec :: "pattern \<Rightarrow> string \<Rightarrow> nat \<Rightarrow> regExpMatch option" where
  "regexExec pat s lastIndex =
     (case find (\<lambda>p. pat s p \<noteq> None) [lastIndex..<Suc (length s)] of
        None \<Rightarrow> None
      | Some p \<Rightarrow>
          (case pat s p of
             None \<Rightarrow> None
           | Some (e, g) \<Rightarrow> Some \<lparr>m_index = p, m_text = substring s p e, m_group = g\<rparr>))"

text \<open>\<^verbatim>\<open>s.indexOf(sub, from)\<close>, with \<open>None\<close> for the result -1.\<close>

definition indexOfFrom :: "string \<Rightarrow> string \<Rightarrow> nat \<Rightarrow> nat option" where
  "indexOfFrom s sub from = find (literalAt sub s) [from..<Suc (length s)]"

text \<open>
  \<^verbatim>\<open>escapeRegex\<close> puts a backslash before each of the characters
  \<^verbatim>\<open>. * + ? ^ $ { } ( ) | [ ]\<close> and the backslash, which are all the syntax
  characters of a regular expression, so the escaped name matches exactly the name itself. The
  patterns built from an escaped name take the name as a parameter.

  \<^verbatim>\<open>/\b(\w+)\s*\(/\<close> and \<^verbatim>\<open>/\b(\w+)\s*[;=,)]/\<close> of \<^verbatim>\<open>extractMemberName\<close>:
\<close>

definition methodShape :: pattern where
  "methodShape s p =
     (if wordBoundary s p then
        (let e = skipWhile isWordChar s p in
         if p < e then
           (let q = skipWhile isWhiteSpace s e in
            if charAt s q = Some (CHR ''('') then Some (q + 1, substring s p e) else None)
         else None)
      else None)"

definition isFieldEnd :: "char \<Rightarrow> bool" where
  "isFieldEnd c = (c \<in> set '';=,)'')"

definition fieldShape :: pattern where
  "fieldShape s p =
     (if wordBoundary s p then
        (let e = skipWhile isWordChar s p in
         if p < e then
           (let q = skipWhile isWhiteSpace s e in
            if q < length s \<and> isFieldEnd (s ! q) then Some (q + 1, substring s p e) else None)
         else None)
      else None)"

text \<open>
  \<^verbatim>\<open>new RegExp(`\\b${escapeRegex(name)}\\s*\\(`)\<close> and
  \<^verbatim>\<open>new RegExp(`\\b${escapeRegex(name)}\\s*[;=,)]`)\<close>:
\<close>

definition methodNamed :: "string \<Rightarrow> pattern" where
  "methodNamed name s p =
     (if wordBoundary s p \<and> literalAt name s p then
        (let q = skipWhile isWhiteSpace s (p + length name) in
         if charAt s q = Some (CHR ''('') then Some (q + 1, []) else None)
      else None)"

definition fieldNamed :: "string \<Rightarrow> pattern" where
  "fieldNamed name s p =
     (if wordBoundary s p \<and> literalAt name s p then
        (let q = skipWhile isWhiteSpace s (p + length name) in
         if q < length s \<and> isFieldEnd (s ! q) then Some (q + 1, []) else None)
      else None)"

text \<open>\<^verbatim>\<open>/package\s+([\w.]+)\s*;/\<close> and \<^verbatim>\<open>/class\s+(\w+)/\<close>:\<close>

definition isPackageChar :: "char \<Rightarrow> bool" where
  "isPackageChar c = (isWordChar c \<or> c = CHR ''.'')"

definition packagePattern :: pattern where
  "packagePattern s p =
     (if literalAt ''package'' s p then
        (let q1 = skipWhile isWhiteSpace s (p + 7) in
         if p + 7 < q1 then
           (let q2 = skipWhile isPackageChar s q1 in
            if q1 < q2 then
              (let q3 = skipWhile isWhiteSpace s q2 in
               if charAt s q3 = Some (CHR '';'') then Some (q3 + 1, substring s q1 q2) else None)
            else None)
         else None)
      else None)"

definition classPattern :: pattern where
  "classPattern s p =
     (if literalAt ''class'' s p then
        (let q1 = skipWhile isWhiteSpace s (p + 5) in
         if p + 5 < q1 then
           (let q2 = skipWhile isWordChar s q1 in
            if q1 < q2 then Some (q2, substring s q1 q2) else None)
         else None)
      else None)"

section \<open>FxmlCodeLensProvider\<close>

text \<open>\<^verbatim>\<open>extractMemberName(line)\<close>, with its two keyword sets.\<close>

definition methodKeywords :: "string list" where
  "methodKeywords =
     [''if'', ''for'', ''while'', ''switch'', ''catch'', ''new'', ''return'', ''class'', ''interface'']"

definition fieldKeywords :: "string list" where
  "fieldKeywords =
     [''public'', ''private'', ''protected'', ''static'', ''final'', ''void'',
      ''class'', ''interface'', ''extends'', ''implements'', ''import'',
      ''package'', ''return'', ''new'']"

definition extractFieldName :: "string \<Rightarrow> string option" where
  "extractFieldName ln =
     (case regexExec fieldShape ln 0 of
        None \<Rightarrow> None
      | Some fieldMatch \<Rightarrow>
          if m_group fieldMatch \<notin> set fieldKeywords then Some (m_group fieldMatch) else None)"

definition extractMemberName :: "string \<Rightarrow> string option" where
  "extractMemberName ln =
     (case regexExec methodShape ln 0 of
        None \<Rightarrow> extractFieldName ln
      | Some methodMatch \<Rightarrow>
          if m_group methodMatch \<notin> set methodKeywords then Some (m_group methodMatch)
          else extractFieldName ln)"

definition isMethodDeclaration :: "string \<Rightarrow> string \<Rightarrow> bool" where
  "isMethodDeclaration ln name = (regexExec (methodNamed name) ln 0 \<noteq> None)"

text \<open>\<^verbatim>\<open>getFullyQualifiedClassName(document)\<close>.\<close>

definition getFullyQualifiedClassName :: "textDocument \<Rightarrow> string option" where
  "getFullyQualifiedClassName d =
     (let text = getText d;
          packageName = (case regexExec packagePattern text 0 of
                           None \<Rightarrow> [] | Some packageMatch \<Rightarrow> m_group packageMatch)
      in case regexExec classPattern text 0 of
           None \<Rightarrow> None
         | Some classMatch \<Rightarrow>
             Some (if packageName \<noteq> [] then packageName @ ''.'' @ m_group classMatch
                   else m_group classMatch))"

text \<open>
  A CodeLens: the range \<^verbatim>\<open>Range(i, 0, i, lineText.length)\<close> of the annotation
  line and the arguments of the command \<^verbatim>\<open>tlcsdm.javafxSupport.goToFxml\<close>.
\<close>

record codeLens =
  lensLine :: nat
  lensEndCharacter :: nat
  lensTitle :: string
  lensCommand :: string
  argController :: string
  argMember :: string
  argIsMethod :: bool

text \<open>
  The inner loop \<^verbatim>\<open>for (let j = i + 1; j < document.lineCount && j <= i + 3; j++)\<close>
  stops at the first line that is neither blank nor an annotation line.
\<close>

definition findMemberLine :: "textDocument \<Rightarrow> nat \<Rightarrow> nat option" where
  "findMemberLine d i =
     find (\<lambda>j. trim (docLines d ! j) \<noteq> [] \<and> \<not> startsWith (trim (docLines d ! j)) ''@'')
       [i + 1..<min (lineCount d) (i + 4)]"

text \<open>
  The body of the outer loop at line \<open>i\<close>: the CodeLens it pushes, if any. A member
  name is truthy when it is defined and not the empty string; \<^verbatim>\<open>isMethod\<close> is only
  used for a truthy name. \<^verbatim>\<open>provideCodeLenses\<close> collects what the body pushes for
  the lines 0 to \<^verbatim>\<open>lineCount - 1\<close>, in this order.
\<close>

definition codeLensAt :: "textDocument \<Rightarrow> string \<Rightarrow> nat \<Rightarrow> codeLens option" where
  "codeLensAt d controllerClassName i =
     (let lineText = docLines d ! i in
      if startsWith (trim lineText) ''@FXML'' then
        (case findMemberLine d i of
           None \<Rightarrow> None
         | Some memberLine \<Rightarrow>
             (let memberLineText = docLines d ! memberLine in
              case extractMemberName memberLineText of
                None \<Rightarrow> None
              | Some memberName \<Rightarrow>
                  if memberName \<noteq> [] then
                    Some \<lparr>lensLine = i, lensEndCharacter = length lineText,
                          lensTitle = ''$(link-external) Go to FXML'',
                          lensCommand = ''tlcsdm.javafxSupport.goToFxml'',
                          argController = controllerClassName,
                          argMember = memberName,
                          argIsMethod = isMethodDeclaration memberLineText memberName\<rparr>
                  else None))
      else None)"

definition provideCodeLenses :: "textDocument \<Rightarrow> codeLens list" where
  "provideCodeLenses d =
     (if \<not> includesStr (getText d) ''javafx.fxml.FXML'' then []
      else
        (case getFullyQualifiedClassName d of
           None \<Rightarrow> []
         | Some controllerClassName \<Rightarrow>
             if controllerClassName = [] then []
             else List.map_filter (codeLensAt d controllerClassName) [0..<lineCount d]))"

section \<open>ControllerDefinitionProvider: the backward annotation check\<close>

text \<open>
  \<^verbatim>\<open>isFxmlAnnotated(document, lineNumber)\<close>. The loop
  \<^verbatim>\<open>for (let i = 1; i <= 2 && lineNumber - i >= 0; i++)\<close> is the function
  \<open>isFxmlAnnotated_loop\<close>; on natural numbers the guard \<^verbatim>\<open>lineNumber - i >= 0\<close>
  is \<open>i \<le> lineNumber\<close>. The \<^verbatim>\<open>break\<close> leaves the loop for the final
  \<^verbatim>\<open>return false\<close>.
\<close>

function isFxmlAnnotated_loop :: "textDocument \<Rightarrow> nat \<Rightarrow> nat \<Rightarrow> error + bool" where
  "isFxmlAnnotated_loop d lineNumber i =
     (if i \<le> 2 \<and> i \<le> lineNumber then
        (case lineAt d (lineNumber - i) of
           Inl e \<Rightarrow> Inl e
         | Inr prevLine \<Rightarrow>
             if startsWith (trim prevLine) ''@FXML'' then Inr True
             else if trim prevLine \<noteq> [] \<and> \<not> startsWith (trim prevLine) ''@'' then Inr False
             else isFxmlAnnotated_loop d lineNumber (i + 1))
      else Inr False)"
  by pat_completeness auto
termination
  by (relation "measure (\<lambda>(d, lineNumber, i). 3 - i)") auto

declare isFxmlAnnotated_loop.simps [simp del]

definition isFxmlAnnotated :: "textDocument \<Rightarrow> nat \<Rightarrow> error + bool" where
  "isFxmlAnnotated d lineNumber =
     (case lineAt d lineNumber of
        Inl e \<Rightarrow> Inl e
      | Inr currentLine \<Rightarrow>
          if includesStr currentLine ''@FXML'' then Inr True
          else isFxmlAnnotated_loop d lineNumber 1)"


section \<open>Basic facts about \<open>regexExec\<close>\<close>

text \<open>The loops over the matches of a global expression need them to terminate.\<close>

lemma upt_Suc_nth: "from + i \<le> n \<Longrightarrow> [from..<Suc n] ! i = from + i"
  by (simp del: upt_Suc)

lemma find_offsets_None:
  "find P [from..<Suc n] = None \<longleftrightarrow> (\<forall>p. from \<le> p \<and> p \<le> n \<longrightarrow> \<not> P p)"
proof -
  have "set [from..<Suc n] = {p. from \<le> p \<and> p \<le> n}"
    by (auto simp del: upt_Suc)
  then show ?thesis
    unfolding find_None_iff by blast
qed

lemma find_offsets_Some:
  assumes "find P [from..<Suc n] = Some p"
  shows "P p \<and> from \<le> p \<and> p \<le> n \<and> (\<forall>q. from \<le> q \<and> q < p \<longrightarrow> \<not> P q)"
proof -
  let ?L = "[from..<Suc n]"
  from assms obtain i where i: "i < length ?L" "P (?L ! i)" "p = ?L ! i" "\<forall>j<i. \<not> P (?L ! j)"
    unfolding find_Some_iff by blast
  from i(1) have le: "from + i \<le> n" by (simp del: upt_Suc)
  then have p: "p = from + i" using i(3) by (simp only: upt_Suc_nth)
  have "\<not> P q" if q: "from \<le> q \<and> q < p" for q
  proof -
    from q p have lt: "q - from < i" by arith
    from q p le have "from + (q - from) \<le> n" by arith
    then have "?L ! (q - from) = from + (q - from)" by (rule upt_Suc_nth)
    also have "\<dots> = q" using q by simp
    finally show ?thesis using i(4) lt by auto
  qed
  with i(2,3) p le show ?thesis by auto
qed

lemma regexExec_SomeD:
  assumes "regexExec pat s from = Some m"
  shows "\<exists>e. pat s (m_index m) = Some (e, m_group m) \<and> from \<le> m_index m \<and> m_index m \<le> length s
           \<and> m_text m = substring s (m_index m) e
           \<and> (\<forall>p. from \<le> p \<and> p < m_index m \<longrightarrow> pat s p = None)"
proof -
  from assms obtain p where f: "find (\<lambda>p. pat s p \<noteq> None) [from..<Suc (length s)] = Some p"
    by (auto simp: regexExec_def split: option.splits)
  from find_offsets_Some [OF f]
  have p: "pat s p \<noteq> None" "from \<le> p" "p \<le> length s"
    and before: "\<forall>q. from \<le> q \<and> q < p \<longrightarrow> pat s q = None"
    by blast+
  from p(1) obtain e g where eg: "pat s p = Some (e, g)" by (cases "pat s p") auto
  with assms f have "m = \<lparr>m_index = p, m_text = substring s p e, m_group = g\<rparr>"
    by (simp add: regexExec_def)
  with eg before p show ?thesis by auto
qed

lemma regexExec_None_iff:
  "regexExec pat s from = None \<longleftrightarrow> (\<forall>p. from \<le> p \<and> p \<le> length s \<longrightarrow> pat s p = None)"
proof -
  have "regexExec pat s from = None \<longleftrightarrow> find (\<lambda>p. pat s p \<noteq> None) [from..<Suc (length s)] = None"
  proof (cases "find (\<lambda>p. pat s p \<noteq> None) [from..<Suc (length s)]")
    case None
    then show ?thesis by (simp add: regexExec_def)
  next
    case (Some p)
    from find_offsets_Some [OF Some] have "pat s p \<noteq> None" by blast
    then obtain e g where "pat s p = Some (e, g)" by (cases "pat s p") auto
    with Some show ?thesis by (simp add: regexExec_def)
  qed
  also have "\<dots> \<longleftrightarrow> (\<forall>p. from \<le> p \<and> p \<le> length s \<longrightarrow> pat s p = None)"
    by (simp only: find_offsets_None not_not)
  finally show ?thesis .
qed

lemma skipWhile_le: "p \<le> length s \<Longrightarrow> skipWhile P s p \<le> length s"
proof -
  assume "p \<le> length s"
  have "length (takeWhile P (drop p s)) \<le> length (drop p s)" by (rule length_takeWhile_le)
  with \<open>p \<le> length s\<close> show ?thesis by (simp add: skipWhile_def)
qed

lemma skipWhile_ge: "p \<le> skipWhile P s p"
  by (simp add: skipWhile_def)

text \<open>
  A pattern is progressive when every match is non-empty and ends inside the subject.
  A loop that calls \<open>regexExec\<close> again from the end of the previous match then
  advances.
\<close>

definition progressive :: "pattern \<Rightarrow> bool" where
  "progressive pat = (\<forall>s p e g. pat s p = Some (e, g) \<longrightarrow> p < e \<and> e \<le> length s)"

lemma regexExec_advances:
  assumes "progressive pat" "regexExec pat s from = Some m"
  shows "from < m_index m + length (m_text m) \<and> m_index m + length (m_text m) \<le> length s"
proof -
  from regexExec_SomeD [OF assms(2)] obtain e where
    e: "pat s (m_index m) = Some (e, m_group m)" "from \<le> m_index m"
       "m_text m = substring s (m_index m) e"
    by blast
  from assms(1) e(1) have pe: "m_index m < e" "e \<le> length s"
    unfolding progressive_def by blast+
  then have "length (m_text m) = e - m_index m"
    using e(3) by (simp add: substring_def)
  with pe e(2) show ?thesis by simp
qed

section \<open>ControllerDefinitionProvider\<close>

text \<open>
  \<^verbatim>\<open>getMemberNameAtPosition(line, charPos)\<close>. The word pattern is
  \<^verbatim>\<open>/\b[a-zA-Z_$][a-zA-Z0-9_$]*\b/g\<close>; the dollar sign is not a word character, so
  the greedy run may have to give characters back until the final \<^verbatim>\<open>\b\<close> holds.
\<close>

definition isIdentStart :: "char \<Rightarrow> bool" where
  "isIdentStart c = (c \<in> set ''abcdefghijklmnopqrstuvwxyzABCDEFGHIJKLMNOPQRSTUVWXYZ_$'')"

definition isIdentPart :: "char \<Rightarrow> bool" where
  "isIdentPart c = (c \<in> set ''abcdefghijklmnopqrstuvwxyzABCDEFGHIJKLMNOPQRSTUVWXYZ0123456789_$'')"

definition wordPattern :: pattern where
  "wordPattern s p =
     (if wordBoundary s p \<and> p < length s \<and> isIdentStart (s ! p) then
        (let e = skipWhile isIdentPart s (p + 1) in
         case find (wordBoundary s) (rev [p + 1..<Suc e]) of
           None \<Rightarrow> None
         | Some q \<Rightarrow> Some (q, []))
      else None)"

definition javaKeywords :: "string list" where
  "javaKeywords =
     [''public'', ''private'', ''protected'', ''static'', ''final'', ''void'',
      ''class'', ''interface'', ''extends'', ''implements'', ''import'',
      ''package'', ''return'', ''new'', ''this'', ''super'', ''if'', ''else'',
      ''for'', ''while'', ''do'', ''switch'', ''case'', ''break'', ''continue'',
      ''try'', ''catch'', ''finally'', ''throw'', ''throws'', ''synchronized'',
      ''abstract'', ''native'', ''transient'', ''volatile'', ''strictfp'',
      ''FXML'', ''Override'']"

lemma wordPattern_progressive: "progressive wordPattern"
  unfolding progressive_def
proof (intro allI impI)
  fix s p e g
  assume a: "wordPattern s p = Some (e, g)"
  let ?e = "skipWhile isIdentPart s (p + 1)"
  from a have p: "p < length s"
    and "find (wordBoundary s) (rev [p + 1..<Suc ?e]) = Some e"
    by (auto simp: wordPattern_def Let_def split: if_splits option.splits)
  then have "e \<in> set (rev [p + 1..<Suc ?e])"
    unfolding find_Some_iff by (metis nth_mem)
  then have "p < e" "e \<le> ?e" by (auto simp del: upt_Suc)
  moreover from p have "?e \<le> length s" by (intro skipWhile_le) simp
  ultimately show "p < e \<and> e \<le> length s" by simp
qed

text \<open>
  The loop \<^verbatim>\<open>while ((match = wordPattern.exec(line)) !== null)\<close>; the expression is
  global, so each call resumes at the end of the previous match (\<open>stop\<close> is the
  source's \<^verbatim>\<open>end\<close>).
\<close>

function getMemberNameAtPosition_loop :: "string \<Rightarrow> nat \<Rightarrow> nat \<Rightarrow> string option" where
  "getMemberNameAtPosition_loop ln charPos lastIndex =
     (case regexExec wordPattern ln lastIndex of
        None \<Rightarrow> None
      | Some m \<Rightarrow>
          (let start = m_index m; stop = start + length (m_text m) in
           if start \<le> charPos \<and> charPos < stop then
             (if m_text m \<in> set javaKeywords then None else Some (m_text m))
           else getMemberNameAtPosition_loop ln charPos stop))"
  by pat_completeness auto
termination
proof (relation "measure (\<lambda>(ln, charPos, lastIndex). Suc (length ln) - lastIndex)")
  show "wf (measure (\<lambda>(ln, charPos, lastIndex). Suc (length ln) - lastIndex))" by simp
next
  fix ln :: string and charPos lastIndex :: nat and m start stop
  assume "regexExec wordPattern ln lastIndex = Some m" "start = m_index m"
    "stop = start + length (m_text m)"
  with regexExec_advances [OF wordPattern_progressive, of ln lastIndex m]
  show "((ln, charPos, stop), (ln, charPos, lastIndex))
          \<in> measure (\<lambda>(ln, charPos, lastIndex). Suc (length ln) - lastIndex)"
    by simp arith
qed

declare getMemberNameAtPosition_loop.simps [simp del]

definition getMemberNameAtPosition :: "string \<Rightarrow> nat \<Rightarrow> string option" where
  "getMemberNameAtPosition ln charPos = getMemberNameAtPosition_loop ln charPos 0"

text \<open>Positions and locations of the editor, and the workspace it searches.\<close>

record position =
  posLine :: nat
  posCharacter :: nat

record location =
  locUri :: string
  locPos :: position

text \<open>
  The workspace is the capability the providers are given: \<^verbatim>\<open>findFiles\<close> maps an
  include glob to the URIs found, in discovery order (the exclude glob is always
  \<^verbatim>\<open>**/node_modules/**\<close>), and \<^verbatim>\<open>openTextDocument\<close> maps a URI to its document.
\<close>

record workspace =
  findFiles :: "string \<Rightarrow> string list"
  openTextDocument :: "string \<Rightarrow> textDocument"

text \<open>
  Both calls return promises, which the code awaits without a handler: when the
  promise is rejected (a file that cannot be loaded, a failed search), the awaiting
  function ends with that error. An editor host gives the outcome of each call,
  \<open>None\<close> for a rejection; a workspace is a host none of whose calls is rejected
  (\<open>hostOf\<close>). The functions on a workspace below are the source's functions when
  every call succeeds; \<^verbatim>\<open>provideDefinition\<close> is modelled on a host.
\<close>

record editorHost =
  hostFindFiles :: "string \<Rightarrow> string list option"
  hostOpenTextDocument :: "string \<Rightarrow> textDocument option"

definition awaitFindFiles :: "editorHost \<Rightarrow> string \<Rightarrow> error + string list" where
  "awaitFindFiles host glob =
     (case hostFindFiles host glob of None \<Rightarrow> Inl Rejected | Some files \<Rightarrow> Inr files)"

definition awaitOpenTextDocument :: "editorHost \<Rightarrow> string \<Rightarrow> error + textDocument" where
  "awaitOpenTextDocument host u =
     (case hostOpenTextDocument host u of None \<Rightarrow> Inl Rejected | Some document \<Rightarrow> Inr document)"

definition hostOf :: "workspace \<Rightarrow> editorHost" where
  "hostOf ws = \<lparr>hostFindFiles = (\<lambda>glob. Some (findFiles ws glob)),
               hostOpenTextDocument = (\<lambda>u. Some (openTextDocument ws u))\<rparr>"

text \<open>A pattern that is one literal string.\<close>

definition literalPattern :: "string \<Rightarrow> pattern" where
  "literalPattern lit s p = (if literalAt lit s p then Some (p + length lit, []) else None)"

text \<open>
  The loops \<^verbatim>\<open>for (let i = 0; i < document.lineCount; i++)\<close> that return at the
  first line where a pattern matches: the line number and the match.
\<close>

definition firstMatchingLine :: "pattern \<Rightarrow> textDocument \<Rightarrow> (nat \<times> regExpMatch) option" where
  "firstMatchingLine pat d =
     (case find (\<lambda>i. regexExec pat (docLines d ! i) 0 \<noteq> None) [0..<lineCount d] of
        None \<Rightarrow> None
      | Some i \<Rightarrow>
          (case regexExec pat (docLines d ! i) 0 of
             None \<Rightarrow> None
           | Some m \<Rightarrow> Some (i, m)))"

text \<open>
  \<^verbatim>\<open>findEventHandlerInFxml\<close>, with the pattern
  \<^verbatim>\<open>new RegExp(`="#${escapeRegex(methodName)}"`)\<close>, and \<^verbatim>\<open>findFxIdInFxml\<close>, with
  \<^verbatim>\<open>new RegExp(`fx:id="${escapeRegex(fieldName)}"`)\<close>.
\<close>

definition findEventHandlerInFxml :: "textDocument \<Rightarrow> string \<Rightarrow> string \<Rightarrow> location option" where
  \<open>findEventHandlerInFxml d uri methodName =
     (case firstMatchingLine (literalPattern (''="#'' @ methodName @ ''"'')) d of
        None \<Rightarrow> None
      | Some (i, m) \<Rightarrow>
          Some \<lparr>locUri = uri, locPos = \<lparr>posLine = i, posCharacter = m_index m + 2\<rparr>\<rparr>)\<close>

definition findFxIdInFxml :: "textDocument \<Rightarrow> string \<Rightarrow> string \<Rightarrow> location option" where
  \<open>findFxIdInFxml d uri fieldName =
     (case firstMatchingLine (literalPattern (''fx:id="'' @ fieldName @ ''"'')) d of
        None \<Rightarrow> None
      | Some (i, m) \<Rightarrow>
          Some \<lparr>locUri = uri, locPos = \<lparr>posLine = i, posCharacter = m_index m\<rparr>\<rparr>)\<close>

text \<open>
  \<^verbatim>\<open>findInFxmlFiles\<close>: the loop over the URIs that \<^verbatim>\<open>findFiles('**/*.fxml', ...)\<close>
  returned. A document that does not contain the controller attribute is skipped by
  \<^verbatim>\<open>continue\<close>; in a document that contains it the member is searched, and the loop
  returns only if a location was found.
\<close>

fun findInFxmlFiles_loop ::
  "workspace \<Rightarrow> string list \<Rightarrow> string \<Rightarrow> string \<Rightarrow> bool \<Rightarrow> location option" where
  \<open>findInFxmlFiles_loop ws [] controllerClassName memberName isMethod = None\<close>
| \<open>findInFxmlFiles_loop ws (fxmlUri # rest) controllerClassName memberName isMethod =
     (let document = openTextDocument ws fxmlUri;
          text = getText document
      in if \<not> includesStr text (''fx:controller="'' @ controllerClassName @ ''"'') then
           findInFxmlFiles_loop ws rest controllerClassName memberName isMethod
         else if isMethod then
           (case findEventHandlerInFxml document fxmlUri memberName of
              Some location \<Rightarrow> Some location
            | None \<Rightarrow> findInFxmlFiles_loop ws rest controllerClassName memberName isMethod)
         else
           (case findFxIdInFxml document fxmlUri memberName of
              Some location \<Rightarrow> Some location
            | None \<Rightarrow> findInFxmlFiles_loop ws rest controllerClassName memberName isMethod))\<close>

definition findInFxmlFiles :: "workspace \<Rightarrow> string \<Rightarrow> string \<Rightarrow> bool \<Rightarrow> location option" where
  "findInFxmlFiles ws controllerClassName memberName isMethod =
     findInFxmlFiles_loop ws (findFiles ws ''**/*.fxml'') controllerClassName memberName isMethod"

text \<open>
  \<^verbatim>\<open>findInFxmlFiles\<close> on an editor host: the same loop, with the rejection of
  \<^verbatim>\<open>findFiles\<close> or of an \<^verbatim>\<open>openTextDocument\<close> that the loop reaches ending the
  function.
\<close>

fun findInFxmlFiles_host_loop ::
  "editorHost \<Rightarrow> string list \<Rightarrow> string \<Rightarrow> string \<Rightarrow> bool \<Rightarrow> error + location option" where
  \<open>findInFxmlFiles_host_loop host [] controllerClassName memberName isMethod = Inr None\<close>
| \<open>findInFxmlFiles_host_loop host (fxmlUri # rest) controllerClassName memberName isMethod =
     (case awaitOpenTextDocument host fxmlUri of
        Inl e \<Rightarrow> Inl e
      | Inr document \<Rightarrow>
          (let text = getText document
           in if \<not> includesStr text (''fx:controller="'' @ controllerClassName @ ''"'') then
                findInFxmlFiles_host_loop host rest controllerClassName memberName isMethod
              else if isMethod then
                (case findEventHandlerInFxml document fxmlUri memberName of
                   Some location \<Rightarrow> Inr (Some location)
                 | None \<Rightarrow>
                     findInFxmlFiles_host_loop host rest controllerClassName memberName isMethod)
              else
                (case findFxIdInFxml document fxmlUri memberName of
                   Some location \<Rightarrow> Inr (Some location)
                 | None \<Rightarrow>
                     findInFxmlFiles_host_loop host rest controllerClassName memberName isMethod)))\<close>

definition findInFxmlFiles_host ::
  "editorHost \<Rightarrow> string \<Rightarrow> string \<Rightarrow> bool \<Rightarrow> error + location option" where
  "findInFxmlFiles_host host controllerClassName memberName isMethod =
     (case awaitFindFiles host ''**/*.fxml'' of
        Inl e \<Rightarrow> Inl e
      | Inr fxmlFiles \<Rightarrow>
          findInFxmlFiles_host_loop host fxmlFiles controllerClassName memberName isMethod)"

text \<open>
  \<^verbatim>\<open>provideDefinition\<close> of the controller side. A value of the sum type is
  \<open>Inl\<close> for an error (of the editor API, or a rejected call) and \<open>Inr\<close> for the
  returned location or \<^verbatim>\<open>undefined\<close>. A string is truthy when it is not empty.
\<close>

definition ControllerDefinitionProvider_provideDefinition ::
  "editorHost \<Rightarrow> textDocument \<Rightarrow> position \<Rightarrow> error + location option" where
  "ControllerDefinitionProvider_provideDefinition host d pos =
     (case lineAt d (posLine pos) of
        Inl e \<Rightarrow> Inl e
      | Inr currentLine \<Rightarrow>
          (case getMemberNameAtPosition currentLine (posCharacter pos) of
             None \<Rightarrow> Inr None
           | Some memberName \<Rightarrow>
               if memberName = [] then Inr None
               else
                 (case isFxmlAnnotated d (posLine pos) of
                    Inl e \<Rightarrow> Inl e
                  | Inr annotated \<Rightarrow>
                      if \<not> annotated then Inr None
                      else
                        (let isMethod = isMethodDeclaration currentLine memberName in
                         case getFullyQualifiedClassName d of
                           None \<Rightarrow> Inr None
                         | Some controllerClassName \<Rightarrow>
                             if controllerClassName = [] then Inr None
                             else findInFxmlFiles_host host controllerClassName memberName isMethod))))"

section \<open>The command goToFxml\<close>

text \<open>
  \<^verbatim>\<open>goToFxmlCommand\<close> ends in one call of the editor: it shows a document with the
  selection at a position, or it shows an information message. The pattern for a
  method is \<^verbatim>\<open>new RegExp(`=\\s*"#${escapeRegex(memberName)}"`)\<close>.
\<close>

datatype uiEffect = ShowTextDocument string position | ShowInformationMessage string

definition handlerRefSpaced :: "string \<Rightarrow> pattern" where
  \<open>handlerRefSpaced name s p =
     (if charAt s p = Some (CHR ''='') then
        (let q = skipWhile isWhiteSpace s (p + 1) in
         if literalAt (''"#'' @ name @ ''"'') s q then Some (q + length name + 3, []) else None)
      else None)\<close>

text \<open>The search inside one document: \<^verbatim>\<open>targetLine\<close> and \<^verbatim>\<open>targetChar\<close>, if found.\<close>

definition goToFxml_target :: "textDocument \<Rightarrow> string \<Rightarrow> bool \<Rightarrow> position option" where
  \<open>goToFxml_target d memberName isMethod =
     (if isMethod then
        (case firstMatchingLine (handlerRefSpaced memberName) d of
           None \<Rightarrow> None
         | Some (i, m) \<Rightarrow> Some \<lparr>posLine = i, posCharacter = m_index m + 2\<rparr>)
      else
        (case firstMatchingLine (literalPattern (''fx:id="'' @ memberName @ ''"'')) d of
           None \<Rightarrow> None
         | Some (i, m) \<Rightarrow> Some \<lparr>posLine = i, posCharacter = m_index m\<rparr>))\<close>

fun goToFxmlCommand_loop :: "workspace \<Rightarrow> string list \<Rightarrow> string \<Rightarrow> string \<Rightarrow> bool \<Rightarrow> uiEffect" where
  \<open>goToFxmlCommand_loop ws [] controllerClassName memberName isMethod =
     ShowInformationMessage (''No FXML reference found for '' @ [CHR 0x27] @ memberName @ [CHR 0x27] @ ''.'')\<close>
| \<open>goToFxmlCommand_loop ws (fxmlUri # rest) controllerClassName memberName isMethod =
     (let document = openTextDocument ws fxmlUri;
          text = getText document
      in if \<not> includesStr text (''fx:controller="'' @ controllerClassName @ ''"'') then
           goToFxmlCommand_loop ws rest controllerClassName memberName isMethod
         else
           (case goToFxml_target document memberName isMethod of
              Some position \<Rightarrow> ShowTextDocument fxmlUri position
            | None \<Rightarrow> goToFxmlCommand_loop ws rest controllerClassName memberName isMethod))\<close>

definition goToFxmlCommand :: "workspace \<Rightarrow> string \<Rightarrow> string \<Rightarrow> bool \<Rightarrow> uiEffect" where
  "goToFxmlCommand ws controllerClassName memberName isMethod =
     goToFxmlCommand_loop ws (findFiles ws ''**/*.fxml'') controllerClassName memberName isMethod"


section \<open>FxmlDefinitionProvider\<close>

text \<open>
  The three attribute patterns of \<^verbatim>\<open>provideDefinition\<close>:
  \<^verbatim>\<open>/fx:controller\s*=\s*"([^"]+)"/g\<close>, \<^verbatim>\<open>/on\w+\s*=\s*"#(\w+)"/g\<close> and
  \<^verbatim>\<open>/fx:id\s*=\s*"(\w+)"/g\<close>.
\<close>

definition controllerAttr :: pattern where
  \<open>controllerAttr s p =
     (if literalAt ''fx:controller'' s p then
        (let q1 = skipWhile isWhiteSpace s (p + 13) in
         if charAt s q1 = Some (CHR ''='') then
           (let q2 = skipWhile isWhiteSpace s (q1 + 1) in
            if charAt s q2 = Some (CHR ''"'') then
              (let q3 = skipWhile (\<lambda>c. c \<noteq> CHR ''"'') s (q2 + 1) in
               if q2 + 1 < q3 \<and> charAt s q3 = Some (CHR ''"'')
               then Some (q3 + 1, substring s (q2 + 1) q3) else None)
            else None)
         else None)
      else None)\<close>

definition eventHandlerAttr :: pattern where
  \<open>eventHandlerAttr s p =
     (if literalAt ''on'' s p then
        (let q1 = skipWhile isWordChar s (p + 2) in
         if p + 2 < q1 then
           (let q2 = skipWhile isWhiteSpace s q1 in
            if charAt s q2 = Some (CHR ''='') then
              (let q3 = skipWhile isWhiteSpace s (q2 + 1) in
               if literalAt ''"#'' s q3 then
                 (let q4 = skipWhile isWordChar s (q3 + 2) in
                  if q3 + 2 < q4 \<and> charAt s q4 = Some (CHR ''"'')
                  then Some (q4 + 1, substring s (q3 + 2) q4) else None)
               else None)
            else None)
         else None)
      else None)\<close>

definition fxIdAttr :: pattern where
  \<open>fxIdAttr s p =
     (if literalAt ''fx:id'' s p then
        (let q1 = skipWhile isWhiteSpace s (p + 5) in
         if charAt s q1 = Some (CHR ''='') then
           (let q2 = skipWhile isWhiteSpace s (q1 + 1) in
            if charAt s q2 = Some (CHR ''"'') then
              (let q3 = skipWhile isWordChar s (q2 + 1) in
               if q2 + 1 < q3 \<and> charAt s q3 = Some (CHR ''"'')
               then Some (q3 + 1, substring s (q2 + 1) q3) else None)
            else None)
         else None)
      else None)\<close>

text \<open>
  \<^verbatim>\<open>getAttributeValueAtPosition(line, charPos, pattern)\<close> is called with these three
  expressions only; the parameter is the choice among them.
\<close>

datatype attributePattern = ControllerAttribute | EventHandlerAttribute | FxIdAttribute

fun attributeRegex :: "attributePattern \<Rightarrow> pattern" where
  "attributeRegex ControllerAttribute = controllerAttr"
| "attributeRegex EventHandlerAttribute = eventHandlerAttr"
| "attributeRegex FxIdAttribute = fxIdAttr"

lemma charAt_SomeD: "charAt s p = Some c \<Longrightarrow> p < length s"
  by (simp add: charAt_def split: if_splits)

lemma attributeRegex_progressive: "progressive (attributeRegex a)"
  unfolding progressive_def
proof (intro allI impI)
  fix s p e g
  assume m: "attributeRegex a s p = Some (e, g)"
  show "p < e \<and> e \<le> length s"
  proof (cases a)
    case ControllerAttribute
    with m obtain q3 where "charAt s q3 = Some (CHR 0x22)" "e = q3 + 1"
        "p + 13 \<le> q3"
      using skipWhile_ge [of "p + 13" isWhiteSpace s]
        skipWhile_ge [of "skipWhile isWhiteSpace s (p + 13) + 1" isWhiteSpace s]
      by (auto simp: controllerAttr_def Let_def split: if_splits)
    then show ?thesis by (auto dest: charAt_SomeD)
  next
    case EventHandlerAttribute
    with m obtain q4 where "charAt s q4 = Some (CHR 0x22)" "e = q4 + 1" "p + 2 < q4"
      using skipWhile_ge [of "skipWhile isWordChar s (p + 2)" isWhiteSpace s]
        skipWhile_ge [of "skipWhile isWhiteSpace s (skipWhile isWordChar s (p + 2)) + 1" isWhiteSpace s]
      by (auto simp: eventHandlerAttr_def Let_def split: if_splits)
    then show ?thesis by (auto dest: charAt_SomeD)
  next
    case FxIdAttribute
    with m obtain q3 where "charAt s q3 = Some (CHR 0x22)" "e = q3 + 1" "p + 5 \<le> q3"
      using skipWhile_ge [of "p + 5" isWhiteSpace s]
        skipWhile_ge [of "skipWhile isWhiteSpace s (p + 5) + 1" isWhiteSpace s]
      by (auto simp: fxIdAttr_def Let_def split: if_splits)
    then show ?thesis by (auto dest: charAt_SomeD)
  qed
qed

text \<open>
  The loop \<^verbatim>\<open>while ((match = pattern.exec(line)) !== null)\<close>; the span test includes
  both ends (\<open>stop\<close> is the source's \<^verbatim>\<open>end\<close>).
\<close>

function getAttributeValueAtPosition_loop ::
  "string \<Rightarrow> nat \<Rightarrow> attributePattern \<Rightarrow> nat \<Rightarrow> string option" where
  "getAttributeValueAtPosition_loop ln charPos a lastIndex =
     (case regexExec (attributeRegex a) ln lastIndex of
        None \<Rightarrow> None
      | Some m \<Rightarrow>
          (let start = m_index m; stop = start + length (m_text m) in
           if start \<le> charPos \<and> charPos \<le> stop then Some (m_group m)
           else getAttributeValueAtPosition_loop ln charPos a stop))"
  by pat_completeness auto
termination
proof (relation "measure (\<lambda>(ln, charPos, a, lastIndex). Suc (length ln) - lastIndex)")
  show "wf (measure (\<lambda>(ln, charPos, a, lastIndex). Suc (length ln) - lastIndex))" by simp
next
  fix ln :: string and charPos lastIndex :: nat and a m start stop
  assume "regexExec (attributeRegex a) ln lastIndex = Some m" "start = m_index m"
    "stop = start + length (m_text m)"
  with regexExec_advances [OF attributeRegex_progressive, of a ln lastIndex m]
  show "((ln, charPos, a, stop), (ln, charPos, a, lastIndex))
          \<in> measure (\<lambda>(ln, charPos, a, lastIndex). Suc (length ln) - lastIndex)"
    by simp arith
qed

declare getAttributeValueAtPosition_loop.simps [simp del]

definition getAttributeValueAtPosition :: "string \<Rightarrow> nat \<Rightarrow> attributePattern \<Rightarrow> string option" where
  "getAttributeValueAtPosition ln charPos a = getAttributeValueAtPosition_loop ln charPos a 0"

definition findControllerInDocument :: "textDocument \<Rightarrow> string option" where
  "findControllerInDocument d =
     (case regexExec controllerAttr (getText d) 0 of
        None \<Rightarrow> None
      | Some m \<Rightarrow> Some (m_group m))"

text \<open>
  \<^verbatim>\<open>className.replace(/\./g, '/') + '.java'\<close>, and
  \<^verbatim>\<open>className.split('.').pop() || className\<close>: the part after the last dot, or the
  whole name when that part is empty.
\<close>

definition javaPath :: "string \<Rightarrow> string" where
  "javaPath className = map (\<lambda>c. if c = CHR ''.'' then CHR ''/'' else c) className @ ''.java''"

definition simpleClassName :: "string \<Rightarrow> string" where
  "simpleClassName className =
     (let lastPart = rev (takeWhile (\<lambda>c. c \<noteq> CHR ''.'') (rev className)) in
      if lastPart \<noteq> [] then lastPart else className)"

text \<open>
  \<^verbatim>\<open>findControllerClass\<close>, on an editor host. The constructor of a position raises an
  error for a negative character, which is what \<^verbatim>\<open>indexOf\<close> returns when the text is
  absent.
\<close>

definition findControllerClass :: "editorHost \<Rightarrow> string \<Rightarrow> error + location option" where
  "findControllerClass host className =
     (case awaitFindFiles host (''**/'' @ javaPath className) of
        Inl e \<Rightarrow> Inl e
      | Inr [] \<Rightarrow> Inr None
      | Inr (file # _) \<Rightarrow>
          (case awaitOpenTextDocument host file of
             Inl e \<Rightarrow> Inl e
           | Inr document \<Rightarrow>
               (let needle = ''class '' @ simpleClassName className
                in case find (\<lambda>i. includesStr (docLines document ! i) needle)
                          [0..<lineCount document] of
                     None \<Rightarrow> Inr (Some \<lparr>locUri = file, locPos = \<lparr>posLine = 0, posCharacter = 0\<rparr>\<rparr>)
                   | Some i \<Rightarrow>
                       (case indexOfFrom (docLines document ! i) needle 0 of
                          None \<Rightarrow> Inl IllegalArgument
                        | Some k \<Rightarrow>
                            Inr (Some \<lparr>locUri = file,
                                       locPos = \<lparr>posLine = i, posCharacter = k\<rparr>\<rparr>)))))"

text \<open>
  \<^verbatim>\<open>findMemberInJavaFile\<close>. The two branches of the source differ only in the
  pattern. \<open>fxmlAnnotationLine\<close> is an integer, with -1 for no annotation line.
\<close>

function findMemberInJavaFile_loop ::
  "textDocument \<Rightarrow> string \<Rightarrow> string \<Rightarrow> bool \<Rightarrow> nat \<Rightarrow> int \<Rightarrow> location option \<Rightarrow> location option" where
  "findMemberInJavaFile_loop d uri memberName isMethod i fxmlAnnotationLine bestMatch =
     (if i < lineCount d then
        (let lineText = docLines d ! i;
             tracked = (if startsWith (trim lineText) ''@FXML'' then int i else fxmlAnnotationLine);
             afterReset = (if 0 \<le> tracked \<and> int i - tracked > 2 then - 1 else tracked)
         in case regexExec (if isMethod then methodNamed memberName else fieldNamed memberName)
                   lineText 0 of
              None \<Rightarrow>
                findMemberInJavaFile_loop d uri memberName isMethod (i + 1) afterReset bestMatch
            | Some m \<Rightarrow>
                (let location = \<lparr>locUri = uri, locPos = \<lparr>posLine = i, posCharacter = m_index m\<rparr>\<rparr> in
                 if 0 \<le> tracked \<and> int i - tracked \<le> 2 then Some location
                 else findMemberInJavaFile_loop d uri memberName isMethod (i + 1) afterReset
                        (if bestMatch = None then Some location else bestMatch)))
      else bestMatch)"
  by pat_completeness auto
termination
  by (relation "measure (\<lambda>(d, uri, memberName, isMethod, i, a, b). lineCount d - i)") auto

declare findMemberInJavaFile_loop.simps [simp del]

definition findMemberInJavaFile ::
  "textDocument \<Rightarrow> string \<Rightarrow> string \<Rightarrow> bool \<Rightarrow> location option" where
  "findMemberInJavaFile d uri memberName isMethod =
     findMemberInJavaFile_loop d uri memberName isMethod 0 (- 1) None"

text \<open>
  \<^verbatim>\<open>findMethodInController\<close> and \<^verbatim>\<open>findFieldInController\<close>, on an editor host;
  they differ in the flag they pass on.
\<close>

definition findMemberInController ::
  "editorHost \<Rightarrow> string \<Rightarrow> string \<Rightarrow> bool \<Rightarrow> error + location option" where
  "findMemberInController host controllerClassName memberName isMethod =
     (case awaitFindFiles host (''**/'' @ javaPath controllerClassName) of
        Inl e \<Rightarrow> Inl e
      | Inr [] \<Rightarrow> Inr None
      | Inr (file # _) \<Rightarrow>
          (case awaitOpenTextDocument host file of
             Inl e \<Rightarrow> Inl e
           | Inr document \<Rightarrow> Inr (findMemberInJavaFile document file memberName isMethod)))"

definition findMethodInController :: "editorHost \<Rightarrow> string \<Rightarrow> string \<Rightarrow> error + location option" where
  "findMethodInController host controllerClassName methodName =
     findMemberInController host controllerClassName methodName True"

definition findFieldInController :: "editorHost \<Rightarrow> string \<Rightarrow> string \<Rightarrow> error + location option" where
  "findFieldInController host controllerClassName fieldName =
     findMemberInController host controllerClassName fieldName False"

text \<open>
  \<^verbatim>\<open>provideDefinition\<close> of the markup side. \<open>truthyValue\<close> keeps a string that
  passes an \<^verbatim>\<open>if (value)\<close> test: defined and not empty. The event-handler branch
  falls through to the identifier branch when the document has no controller.
\<close>

definition truthyValue :: "string option \<Rightarrow> string option" where
  "truthyValue v = (case v of None \<Rightarrow> None | Some x \<Rightarrow> if x \<noteq> [] then Some x else None)"

definition fxIdBranch :: "editorHost \<Rightarrow> textDocument \<Rightarrow> string \<Rightarrow> nat \<Rightarrow> error + location option" where
  "fxIdBranch host d ln charPos =
     (case truthyValue (getAttributeValueAtPosition ln charPos FxIdAttribute) of
        None \<Rightarrow> Inr None
      | Some fxIdMatch \<Rightarrow>
          (case truthyValue (findControllerInDocument d) of
             None \<Rightarrow> Inr None
           | Some controllerClassName \<Rightarrow> findFieldInController host controllerClassName fxIdMatch))"

definition eventHandlerBranch ::
  "editorHost \<Rightarrow> textDocument \<Rightarrow> string \<Rightarrow> nat \<Rightarrow> error + location option" where
  "eventHandlerBranch host d ln charPos =
     (case truthyValue (getAttributeValueAtPosition ln charPos EventHandlerAttribute) of
        None \<Rightarrow> fxIdBranch host d ln charPos
      | Some eventHandlerMatch \<Rightarrow>
          (case truthyValue (findControllerInDocument d) of
             None \<Rightarrow> fxIdBranch host d ln charPos
           | Some controllerClassName \<Rightarrow>
               findMethodInController host controllerClassName eventHandlerMatch))"

definition FxmlDefinitionProvider_provideDefinition ::
  "editorHost \<Rightarrow> textDocument \<Rightarrow> position \<Rightarrow> error + location option" where
  "FxmlDefinitionProvider_provideDefinition host d pos =
     (case lineAt d (posLine pos) of
        Inl e \<Rightarrow> Inl e
      | Inr ln \<Rightarrow>
          (case truthyValue (getAttributeValueAtPosition ln (posCharacter pos) ControllerAttribute) of
             Some controllerMatch \<Rightarrow> findControllerClass host controllerMatch
           | None \<Rightarrow> eventHandlerBranch host d ln (posCharacter pos)))"


section \<open>FxmlFormattingEditProvider\<close>

text \<open>
  The formatting options of the editor; \<^verbatim>\<open>tabSize\<close> is a natural number.
\<close>

record formattingOptions =
  insertSpaces :: bool
  tabSize :: nat

text \<open>
  \<^verbatim>\<open>xml.replace(/\r\n/g, '\n').replace(/\r/g, '\n')\<close>, as the two passes of the
  source.
\<close>

fun replaceCRLF :: "string \<Rightarrow> string" where
  "replaceCRLF [] = []"
| "replaceCRLF [c] = [c]"
| "replaceCRLF (c # c' # rest) =
     (if c = CHR 0x0D \<and> c' = CHR 0x0A then CHR 0x0A # replaceCRLF rest
      else c # replaceCRLF (c' # rest))"

definition replaceCR :: "string \<Rightarrow> string" where
  "replaceCR s = map (\<lambda>c. if c = CHR 0x0D then CHR 0x0A else c) s"

text \<open>
  \<^verbatim>\<open>tokenize(xml)\<close>. \<open>pushNonBlank\<close> is
  \<^verbatim>\<open>if (current.trim()) { tokens.push(current); }\<close>. When a CDATA section or a
  comment opens at offset \<open>i\<close> and its end is found, the loop continues after the
  end with an empty \<open>current\<close>; when the end is not found, the loop falls through to
  the test of the character, with \<open>current\<close> unchanged.
\<close>

definition pushNonBlank :: "string list \<Rightarrow> string \<Rightarrow> string list" where
  "pushNonBlank tokens current = (if trim current \<noteq> [] then tokens @ [current] else tokens)"

lemma indexOfFrom_ge: "Some k = indexOfFrom s sub from \<Longrightarrow> from \<le> k"
  unfolding indexOfFrom_def by (drule sym, drule find_offsets_Some) simp

function tokenize_loop :: "string \<Rightarrow> nat \<Rightarrow> string list \<Rightarrow> string \<Rightarrow> bool \<Rightarrow> string list" where
  "tokenize_loop xml i tokens current inTag =
     (if i < length xml then
        (let isCdata = (substring xml i (i + 9) = ''<![CDATA['');
             tokens1 = (if isCdata then pushNonBlank tokens current else tokens);
             cdataEnd = (if isCdata then indexOfFrom xml '']]>'' i else None)
         in case cdataEnd of
              Some e \<Rightarrow> tokenize_loop xml (e + 3) (tokens1 @ [substring xml i (e + 3)]) [] inTag
            | None \<Rightarrow>
                (let isComment = (substring xml i (i + 4) = ''<!--'');
                     tokens2 = (if isComment then pushNonBlank tokens1 current else tokens1);
                     commentEnd = (if isComment then indexOfFrom xml ''-->'' i else None)
                 in case commentEnd of
                      Some e \<Rightarrow>
                        tokenize_loop xml (e + 3) (tokens2 @ [substring xml i (e + 3)]) [] inTag
                    | None \<Rightarrow>
                        if xml ! i = CHR ''<'' then
                          tokenize_loop xml (i + 1) (pushNonBlank tokens2 current) ''<'' True
                        else if xml ! i = CHR ''>'' \<and> inTag then
                          tokenize_loop xml (i + 1) (tokens2 @ [current @ ''>'']) [] False
                        else tokenize_loop xml (i + 1) tokens2 (current @ [xml ! i]) inTag))
      else pushNonBlank tokens current)"
  by pat_completeness auto
termination
  by (relation "measure (\<lambda>(xml, i, tokens, current, inTag). length xml - i)")
     (auto dest!: indexOfFrom_ge split: if_splits)

declare tokenize_loop.simps [simp del]

definition tokenize :: "string \<Rightarrow> string list" where
  "tokenize xml = tokenize_loop xml 0 [] [] False"

text \<open>
  The loop of \<^verbatim>\<open>formatXml\<close> over the tokens, returning the lines it pushes.
  \<^verbatim>\<open>Math.max(0, level - 1)\<close> is the truncating subtraction of natural numbers, and
  \<^verbatim>\<open>indent.repeat(level)\<close> is \<open>concat (replicate level indent)\<close>.
\<close>

fun formatParts :: "string \<Rightarrow> string list \<Rightarrow> nat \<Rightarrow> string list" where
  "formatParts indent [] level = []"
| "formatParts indent (part # parts) level =
     (let trimmed = trim part in
      if trimmed = [] then formatParts indent parts level
      else if startsWith trimmed ''<?'' then trimmed # formatParts indent parts level
      else if startsWith trimmed ''<!--'' then
        (concat (replicate level indent) @ trimmed) # formatParts indent parts level
      else if startsWith trimmed ''</'' then
        (concat (replicate (level - 1) indent) @ trimmed) # formatParts indent parts (level - 1)
      else if endsWith trimmed ''/>'' then
        (concat (replicate level indent) @ trimmed) # formatParts indent parts level
      else if startsWith trimmed ''<'' then
        (concat (replicate level indent) @ trimmed)
          # formatParts indent parts
              (if \<not> endsWith trimmed ''/>'' \<and> \<not> startsWith trimmed ''<?'' then level + 1 else level)
      else (concat (replicate level indent) @ trimmed) # formatParts indent parts level)"

definition formatXml :: "string \<Rightarrow> formattingOptions \<Rightarrow> string" where
  "formatXml xml options =
     (let indent = (if insertSpaces options then replicate (tabSize options) (CHR '' '') else [CHR 0x09]);
          text = replaceCR (replaceCRLF xml);
          result = joinWith [CHR 0x0A] (formatParts indent (tokenize text) 0)
      in if \<not> endsWith result [CHR 0x0A] then result @ [CHR 0x0A] else result)"

text \<open>
  \<^verbatim>\<open>formatRange\<close>, on the text of the range: the new texts of the edits it returns
  (no edit, or one replacement of the range).
\<close>

definition formatRange :: "string \<Rightarrow> formattingOptions \<Rightarrow> string list" where
  "formatRange text options =
     (let formatted = formatXml text options in
      if formatted = text then [] else [formatted])"


section \<open>Example documents\<close>

text \<open>
  A workspace with the controller class \<^verbatim>\<open>pkg.C\<close> and two markup documents that
  name it; only the second one refers to members of the controller. In the controller
  the field \<^verbatim>\<open>ok\<close> is assigned in the constructor, above its annotated declaration.
\<close>

definition controllerC :: textDocument where
  "controllerC = \<lparr>docLines =
      [''package pkg;'',
       ''import javafx.fxml.FXML;'',
       ''public class C {'',
       ''    public C() { ok = null; }'',
       [],
       [],
       ''    @FXML'',
       ''    private Button ok;'',
       ''    @FXML'',
       ''    private void handleClick(ActionEvent e) { ok.setText(null); }'',
       ''}''],
     docEol = LF\<rparr>"

definition viewA :: textDocument where
  \<open>viewA = \<lparr>docLines = [''<VBox fx:controller="pkg.C">'', ''  <Label text="hi"/>'', ''</VBox>''],
            docEol = LF\<rparr>\<close>

definition viewB :: textDocument where
  \<open>viewB = \<lparr>docLines = [''<VBox fx:controller="pkg.C">'',
                         ''  <Button fx:id="ok" onAction="#handleClick"/>'', ''</VBox>''],
            docEol = LF\<rparr>\<close>

definition exampleWorkspace :: workspace where
  "exampleWorkspace =
     \<lparr>findFiles = (\<lambda>glob. if glob = ''**/*.fxml'' then [''a.fxml'', ''b.fxml'']
                         else if glob = ''**/pkg/C.java'' then [''src/pkg/C.java''] else []),
      openTextDocument = (\<lambda>u. if u = ''a.fxml'' then viewA
                                else if u = ''b.fxml'' then viewB else controllerC)\<rparr>"

text \<open>A source document in which \<^verbatim>\<open>@FXML\<close> occurs only inside a comment.\<close>

definition controllerD :: textDocument where
  "controllerD = \<lparr>docLines =
      [''import javafx.fxml.FXML;'',
       ''public class D {'',
       ''    // the @FXML fields'',
       ''    private Button ok;'',
       ''}''],
     docEol = LF\<rparr>"







text \<open>
  Two source documents with an unannotated declaration of \<^verbatim>\<open>x\<close> above the annotated
  one. In the first the marker on line 0 belongs to the field \<^verbatim>\<open>a\<close>; in the second the
  marker stands inside the declaration line.
\<close>

definition controllerF :: textDocument where
  "controllerF = \<lparr>docLines =
      [''@FXML'',
       ''private Button a;'',
       ''private int x = 0;'',
       [],
       ''@FXML'',
       ''private Button x;''],
     docEol = LF\<rparr>"

definition controllerG :: textDocument where
  "controllerG = \<lparr>docLines =
      [''int x = 0;'',
       [],
       [],
       ''private @FXML Button x;''],
     docEol = LF\<rparr>"

section \<open>Notions used in the statements\<close>



text \<open>
  For \<^verbatim>\<open>findMemberInJavaFile\<close>: line \<open>i\<close> structurally matches the member, the
  location built for such a line, and the test the function applies to call the match
  annotated: a line whose trimmed content starts with \<^verbatim>\<open>@FXML\<close> stands at most two
  lines above line \<open>i\<close>, or is line \<open>i\<close> itself.
\<close>

definition structuralMatch :: "textDocument \<Rightarrow> string \<Rightarrow> bool \<Rightarrow> nat \<Rightarrow> bool" where
  "structuralMatch d memberName isMethod i =
     (regexExec (if isMethod then methodNamed memberName else fieldNamed memberName)
        (docLines d ! i) 0 \<noteq> None)"

definition matchLocation :: "textDocument \<Rightarrow> string \<Rightarrow> string \<Rightarrow> bool \<Rightarrow> nat \<Rightarrow> location option" where
  "matchLocation d uri memberName isMethod i =
     (case regexExec (if isMethod then methodNamed memberName else fieldNamed memberName)
             (docLines d ! i) 0 of
        None \<Rightarrow> None
      | Some m \<Rightarrow> Some \<lparr>locUri = uri, locPos = \<lparr>posLine = i, posCharacter = m_index m\<rparr>\<rparr>)"

definition markerLine :: "textDocument \<Rightarrow> nat \<Rightarrow> bool" where
  "markerLine d i = startsWith (trim (docLines d ! i)) ''@FXML''"

definition markerWithin2 :: "textDocument \<Rightarrow> nat \<Rightarrow> bool" where
  "markerWithin2 d i = (\<exists>j \<in> set [0..<3]. j \<le> i \<and> markerLine d (i - j))"

text \<open>
  What the loop of \<^verbatim>\<open>findMemberInJavaFile\<close> returns from line \<open>i\<close> on, when
  \<open>bestMatch\<close> is the first unannotated match seen before line \<open>i\<close>, if any.
\<close>

definition preferredMatch :: "textDocument \<Rightarrow> string \<Rightarrow> string \<Rightarrow> bool \<Rightarrow> nat \<Rightarrow> location option \<Rightarrow> location option" where
  "preferredMatch d uri memberName isMethod i bestMatch =
     (case find (\<lambda>k. structuralMatch d memberName isMethod k \<and> markerWithin2 d k) [i..<lineCount d] of
        Some k \<Rightarrow> matchLocation d uri memberName isMethod k
      | None \<Rightarrow>
          (case bestMatch of
             Some b \<Rightarrow> Some b
           | None \<Rightarrow>
               (case find (structuralMatch d memberName isMethod) [i..<lineCount d] of
                  Some k \<Rightarrow> matchLocation d uri memberName isMethod k
                | None \<Rightarrow> None)))"

text \<open>
  The invariant of the loop of \<^verbatim>\<open>findMemberInJavaFile\<close> at the start of iteration
  \<open>i\<close>: the tracked annotation line is -1 or a marker line before \<open>i\<close>, and it is
  not older than any marker line among the two lines before \<open>i\<close>.
\<close>

definition trackerInv :: "textDocument \<Rightarrow> nat \<Rightarrow> int \<Rightarrow> bool" where
  "trackerInv d i ann =
     ((ann = - 1 \<or> (0 \<le> ann \<and> ann < int i \<and> markerLine d (nat ann)))
      \<and> (\<forall>j<i. markerLine d j \<and> i - j \<le> 2 \<longrightarrow> int j \<le> ann))"


section \<open>Properties of the backward annotation check\<close>

lemma startsWith_FXML_at: "startsWith s ''@FXML'' \<Longrightarrow> startsWith s ''@''"
  by (cases s) (auto simp: startsWith_def)

lemma isFxmlAnnotated_loop_end: "isFxmlAnnotated_loop d n 3 = Inr False"
  by (subst isFxmlAnnotated_loop.simps) simp

lemma isFxmlAnnotated_unfold:
  assumes "n < lineCount d" "\<not> includesStr (docLines d ! n) ''@FXML''"
  shows "isFxmlAnnotated d n = isFxmlAnnotated_loop d n 1"
  using assms by (simp add: isFxmlAnnotated_def lineAt_def)

lemma isFxmlAnnotated_current:
  assumes "n < lineCount d" "includesStr (docLines d ! n) ''@FXML''"
  shows "isFxmlAnnotated d n = Inr True"
  using assms by (simp add: isFxmlAnnotated_def lineAt_def)

lemma loop_step1:
  assumes "Suc 0 \<le> n" "n < lineCount d"
  shows "isFxmlAnnotated_loop d n (Suc 0) =
     (if startsWith (trim (docLines d ! (n - Suc 0))) ''@FXML'' then Inr True
      else if trim (docLines d ! (n - Suc 0)) \<noteq> []
              \<and> \<not> startsWith (trim (docLines d ! (n - Suc 0))) ''@''
        then Inr False
      else isFxmlAnnotated_loop d n 2)"
proof -
  have two: "Suc 0 + 1 = (2::nat)" by simp
  have "n - Suc 0 < lineCount d" using assms by arith
  then show ?thesis
    using assms by (subst isFxmlAnnotated_loop.simps) (simp add: lineAt_def two del: One_nat_def)
qed

lemma loop_step2:
  assumes "2 \<le> n" "n < lineCount d"
  shows "isFxmlAnnotated_loop d n 2 =
     (if startsWith (trim (docLines d ! (n - 2))) ''@FXML'' then Inr True else Inr False)"
proof -
  have "n - 2 < lineCount d" using assms by arith
  then show ?thesis
    using assms
    by (subst isFxmlAnnotated_loop.simps) (simp add: lineAt_def isFxmlAnnotated_loop_end)
qed

lemma loop_step2_short:
  assumes "n < 2"
  shows "isFxmlAnnotated_loop d n 2 = Inr False"
  using assms by (subst isFxmlAnnotated_loop.simps) simp

lemma isFxmlAnnotated_one_after:
  assumes "Suc n < lineCount d" "startsWith (trim (docLines d ! n)) ''@FXML''"
  shows "isFxmlAnnotated d (Suc n) = Inr True"
proof (cases "includesStr (docLines d ! Suc n) ''@FXML''")
  case True
  with assms(1) show ?thesis by (rule isFxmlAnnotated_current)
next
  case False
  with assms(1) have "isFxmlAnnotated d (Suc n) = isFxmlAnnotated_loop d (Suc n) 1"
    by (rule isFxmlAnnotated_unfold)
  also have "\<dots> = Inr True"
    using assms by (simp add: loop_step1)
  finally show ?thesis .
qed

lemma isFxmlAnnotated_two_after:
  assumes "n + 2 < lineCount d" "startsWith (trim (docLines d ! n)) ''@FXML''"
    and "startsWith (trim (docLines d ! (n + 1))) ''@''"
  shows "isFxmlAnnotated d (n + 2) = Inr True"
proof (cases "includesStr (docLines d ! (n + 2)) ''@FXML''")
  case True
  with assms(1) show ?thesis by (rule isFxmlAnnotated_current)
next
  case False
  with assms(1) have "isFxmlAnnotated d (n + 2) = isFxmlAnnotated_loop d (n + 2) 1"
    by (rule isFxmlAnnotated_unfold)
  also have "\<dots> = Inr True"
    using assms by (simp add: loop_step1 loop_step2)
  finally show ?thesis .
qed

lemma isFxmlAnnotated_stop:
  assumes "1 \<le> m" "m < lineCount d" "\<not> includesStr (docLines d ! m) ''@FXML''"
    and "trim (docLines d ! (m - 1)) \<noteq> []" "\<not> startsWith (trim (docLines d ! (m - 1))) ''@''"
  shows "isFxmlAnnotated d m = Inr False"
proof -
  have "\<not> startsWith (trim (docLines d ! (m - 1))) ''@FXML''"
    using assms(5) startsWith_FXML_at by blast
  then show ?thesis
    using assms by (simp add: isFxmlAnnotated_unfold loop_step1)
qed

lemma isFxmlAnnotated_far:
  assumes "2 \<le> m" "m < lineCount d" "\<not> includesStr (docLines d ! m) ''@FXML''"
    and "\<not> startsWith (trim (docLines d ! (m - 1))) ''@''"
    and "\<not> startsWith (trim (docLines d ! (m - 2))) ''@''"
  shows "isFxmlAnnotated d m = Inr False"
proof -
  have "\<not> startsWith (trim (docLines d ! (m - 1))) ''@FXML''"
    and "\<not> startsWith (trim (docLines d ! (m - 2))) ''@FXML''"
    using assms(4,5) startsWith_FXML_at by blast+
  then show ?thesis
    using assms by (simp add: isFxmlAnnotated_unfold loop_step1 loop_step2)
qed

text \<open>
  Claim C4. The backward annotation check answers true for a declaration one
  line after a line whose trimmed content is the marker \<^verbatim>\<open>@FXML\<close>, and for a
  declaration two lines after a marker line with another annotation line (trimmed
  content starting with \<^verbatim>\<open>@\<close>) in between. It answers false for a declaration
  (a line that does not itself contain the marker) when the \<open>k \<ge> 3\<close> lines before
  it are all non-annotation lines. The scan stops at the first preceding line that is
  non-blank and not an annotation line: the answer is then false whatever stands
  above that line.
\<close>

theorem isFxmlAnnotated_window:
  "(Suc n1 < lineCount d \<and> trim (docLines d ! n1) = ''@FXML''
      \<longrightarrow> isFxmlAnnotated d (Suc n1) = Inr True)
   \<and> (n2 + 2 < lineCount d \<and> startsWith (trim (docLines d ! n2)) ''@FXML''
        \<and> startsWith (trim (docLines d ! (n2 + 1))) ''@''
      \<longrightarrow> isFxmlAnnotated d (n2 + 2) = Inr True)
   \<and> (3 \<le> k \<and> k \<le> m3 \<and> m3 < lineCount d \<and> \<not> includesStr (docLines d ! m3) ''@FXML''
        \<and> (\<forall>j. 1 \<le> j \<and> j \<le> k \<longrightarrow> \<not> startsWith (trim (docLines d ! (m3 - j))) ''@'')
      \<longrightarrow> isFxmlAnnotated d m3 = Inr False)
   \<and> (1 \<le> m4 \<and> m4 < lineCount d \<and> \<not> includesStr (docLines d ! m4) ''@FXML''
        \<and> trim (docLines d ! (m4 - 1)) \<noteq> [] \<and> \<not> startsWith (trim (docLines d ! (m4 - 1))) ''@''
      \<longrightarrow> isFxmlAnnotated d m4 = Inr False)"
proof (intro conjI impI)
  assume "Suc n1 < lineCount d \<and> trim (docLines d ! n1) = ''@FXML''"
  then show "isFxmlAnnotated d (Suc n1) = Inr True"
    by (intro isFxmlAnnotated_one_after) (simp_all add: startsWith_def)
next
  assume "n2 + 2 < lineCount d \<and> startsWith (trim (docLines d ! n2)) ''@FXML''
        \<and> startsWith (trim (docLines d ! (n2 + 1))) ''@''"
  then show "isFxmlAnnotated d (n2 + 2) = Inr True"
    by (intro isFxmlAnnotated_two_after) simp_all
next
  assume a: "3 \<le> k \<and> k \<le> m3 \<and> m3 < lineCount d \<and> \<not> includesStr (docLines d ! m3) ''@FXML''
        \<and> (\<forall>j. 1 \<le> j \<and> j \<le> k \<longrightarrow> \<not> startsWith (trim (docLines d ! (m3 - j))) ''@'')"
  then have "\<not> startsWith (trim (docLines d ! (m3 - 1))) ''@''"
    and "\<not> startsWith (trim (docLines d ! (m3 - 2))) ''@''"
    by auto
  with a show "isFxmlAnnotated d m3 = Inr False"
    by (intro isFxmlAnnotated_far) simp_all
next
  assume "1 \<le> m4 \<and> m4 < lineCount d \<and> \<not> includesStr (docLines d ! m4) ''@FXML''
        \<and> trim (docLines d ! (m4 - 1)) \<noteq> [] \<and> \<not> startsWith (trim (docLines d ! (m4 - 1))) ''@''"
  then show "isFxmlAnnotated d m4 = Inr False"
    by (intro isFxmlAnnotated_stop) simp_all
qed

theorem isFxmlAnnotated_window_witness:
  "isFxmlAnnotated \<lparr>docLines = [''@FXML'', ''private Button a;'', ''  @FXML'', ''@Deprecated'',
       ''private Button b;'', ''// one'', ''// two'', ''// three'', ''private Button c;'',
       ''@FXML'', ''int x;'', ''private Button e;''], docEol = LF\<rparr> 1 = Inr True
   \<and> isFxmlAnnotated \<lparr>docLines = [''@FXML'', ''private Button a;'', ''  @FXML'', ''@Deprecated'',
       ''private Button b;'', ''// one'', ''// two'', ''// three'', ''private Button c;'',
       ''@FXML'', ''int x;'', ''private Button e;''], docEol = LF\<rparr> 4 = Inr True
   \<and> isFxmlAnnotated \<lparr>docLines = [''@FXML'', ''private Button a;'', ''  @FXML'', ''@Deprecated'',
       ''private Button b;'', ''// one'', ''// two'', ''// three'', ''private Button c;'',
       ''@FXML'', ''int x;'', ''private Button e;''], docEol = LF\<rparr> 8 = Inr False
   \<and> isFxmlAnnotated \<lparr>docLines = [''@FXML'', ''private Button a;'', ''  @FXML'', ''@Deprecated'',
       ''private Button b;'', ''// one'', ''// two'', ''// three'', ''private Button c;'',
       ''@FXML'', ''int x;'', ''private Button e;''], docEol = LF\<rparr> 11 = Inr False"
  (is "isFxmlAnnotated ?D 1 = _ \<and> _")
proof -
  have all3: "\<forall>j::nat. 1 \<le> j \<and> j \<le> 3 \<longrightarrow> \<not> startsWith (trim (docLines ?D ! (8 - j))) ''@''"
  proof (intro allI impI)
    fix j :: nat assume "1 \<le> j \<and> j \<le> 3"
    then have "j = 1 \<or> j = 2 \<or> j = 3" by arith
    then show "\<not> startsWith (trim (docLines ?D ! (8 - j))) ''@''"
      by (auto simp: startsWith_def trim_def isWhiteSpace_def)
  qed
  have h3: "\<not> includesStr (docLines ?D ! 8) ''@FXML''"
    by (simp add: startsWith_def)
  have h4: "\<not> includesStr (docLines ?D ! 11) ''@FXML''"
    by (simp add: startsWith_def)
  show ?thesis
    using isFxmlAnnotated_window [of 0 ?D 2 3 8 11] all3 h3 h4
    by (simp add: lineCount_def startsWith_def trim_def isWhiteSpace_def)
qed

section \<open>Properties of member name extraction\<close>

lemma methodShape_methodNamed:
  assumes "methodShape s p = Some (e, g)"
  shows "methodNamed g s p \<noteq> None"
proof -
  let ?e = "skipWhile isWordChar s p"
  let ?q = "skipWhile isWhiteSpace s ?e"
  from assms have wb: "wordBoundary s p" and lt: "p < ?e"
    and ch: "charAt s ?q = Some (CHR ''('')" and g: "g = substring s p ?e"
    by (auto simp: methodShape_def Let_def split: if_splits)
  have ple: "p \<le> length s"
  proof (rule ccontr)
    assume "\<not> p \<le> length s"
    then have "?e = p" by (simp add: skipWhile_def)
    with lt show False by simp
  qed
  then have ele: "?e \<le> length s" by (rule skipWhile_le)
  have len: "length g = ?e - p" using g ele by (simp add: substring_def)
  have "?e - p \<le> length s - p" using ele by arith
  then have lit: "literalAt g s p"
    using g ple by (simp add: literalAt_def startsWith_def substring_def min_def)
  have "p + length g = ?e" using len lt by simp
  with wb lit ch show ?thesis by (simp add: methodNamed_def Let_def)
qed

text \<open>
  Claim C7. \<^verbatim>\<open>extractMemberName\<close> tries the method shape first: on every line
  where the method shape matches and the captured identifier is not in the method
  keyword set, the result is that identifier, whatever the field shape would capture,
  and \<^verbatim>\<open>isMethodDeclaration\<close> classifies it as a method. The line
  \<^verbatim>\<open>doThing(x); int doThing = 1;\<close> matches both shapes (the field shape captures
  \<^verbatim>\<open>x\<close>) and is classified as the method \<^verbatim>\<open>doThing\<close>.
\<close>

theorem extractMemberName_method_first:
  assumes "regexExec methodShape ln 0 = Some m" and "m_group m \<notin> set methodKeywords"
  shows "extractMemberName ln = Some (m_group m) \<and> isMethodDeclaration ln (m_group m)"
proof
  from assms show "extractMemberName ln = Some (m_group m)"
    by (simp add: extractMemberName_def)
next
  from regexExec_SomeD [OF assms(1)] obtain e where
      e: "methodShape ln (m_index m) = Some (e, m_group m)" and le: "m_index m \<le> length ln"
    by blast
  from e have "methodNamed (m_group m) ln (m_index m) \<noteq> None" by (rule methodShape_methodNamed)
  with le have "regexExec (methodNamed (m_group m)) ln 0 \<noteq> None"
    unfolding regexExec_None_iff by auto
  then show "isMethodDeclaration ln (m_group m)" by (simp add: isMethodDeclaration_def)
qed

theorem extractMemberName_method_first_witness:
  "regexExec methodShape ''doThing(x); int doThing = 1;'' 0
     = Some \<lparr>m_index = 0, m_text = ''doThing('', m_group = ''doThing''\<rparr>
   \<and> regexExec fieldShape ''doThing(x); int doThing = 1;'' 0
     = Some \<lparr>m_index = 8, m_text = ''x)'', m_group = ''x''\<rparr>
   \<and> extractMemberName ''doThing(x); int doThing = 1;'' = Some ''doThing''
   \<and> isMethodDeclaration ''doThing(x); int doThing = 1;'' ''doThing''"
proof -
  have m: "regexExec methodShape ''doThing(x); int doThing = 1;'' 0
     = Some \<lparr>m_index = 0, m_text = ''doThing('', m_group = ''doThing''\<rparr>"
    by code_simp
  have f: "regexExec fieldShape ''doThing(x); int doThing = 1;'' 0
     = Some \<lparr>m_index = 8, m_text = ''x)'', m_group = ''x''\<rparr>"
    by code_simp
  have k: "m_group \<lparr>m_index = 0, m_text = ''doThing('', m_group = ''doThing''\<rparr> \<notin> set methodKeywords"
    by (simp add: methodKeywords_def)
  from extractMemberName_method_first [OF m k] m f show ?thesis by simp
qed


section \<open>Properties of the navigation index\<close>

lemma provideCodeLenses_example:
  "provideCodeLenses \<lparr>docLines = [''package app;'', ''import javafx.fxml.FXML;'',
       ''public class Main {'', ''  @FXML'', ''  private Button ok;'', ''  @FXML'',
       ''  private void onOk(ActionEvent e) {}'', ''}''], docEol = LF\<rparr>
   = [\<lparr>lensLine = 3, lensEndCharacter = 7, lensTitle = ''$(link-external) Go to FXML'',
        lensCommand = ''tlcsdm.javafxSupport.goToFxml'', argController = ''app.Main'',
        argMember = ''ok'', argIsMethod = False\<rparr>,
      \<lparr>lensLine = 5, lensEndCharacter = 7, lensTitle = ''$(link-external) Go to FXML'',
        lensCommand = ''tlcsdm.javafxSupport.goToFxml'', argController = ''app.Main'',
        argMember = ''onOk'', argIsMethod = True\<rparr>]"
  by code_simp

text \<open>
  Claim C10. A source document whose text does not contain \<^verbatim>\<open>javafx.fxml.FXML\<close>
  has no CodeLens, however many annotated members it declares, and neither has a
  document without a type declaration (the class pattern matches nowhere in its text).
\<close>

theorem provideCodeLenses_empty:
  "(\<not> includesStr (getText d) ''javafx.fxml.FXML'' \<longrightarrow> provideCodeLenses d = [])
   \<and> (regexExec classPattern (getText d) 0 = None \<longrightarrow> provideCodeLenses d = [])"
  by (simp add: provideCodeLenses_def getFullyQualifiedClassName_def Let_def)

theorem provideCodeLenses_empty_witness:
  "provideCodeLenses \<lparr>docLines = [''package app;'', ''public class Main {'', ''  @FXML'',
       ''  private Button ok;'', ''}''], docEol = LF\<rparr> = []
   \<and> provideCodeLenses \<lparr>docLines = [''import javafx.fxml.FXML;'', ''public interface View {'',
       ''  @FXML'', ''  void init();'', ''}''], docEol = LF\<rparr> = []"
  (is "provideCodeLenses ?d1 = [] \<and> provideCodeLenses ?d2 = []")
proof -
  have h1: "\<not> includesStr (getText ?d1) ''javafx.fxml.FXML''"
    by code_simp
  have h2: "regexExec classPattern (getText ?d2) 0 = None"
    by code_simp
  from provideCodeLenses_empty [of ?d1] h1 provideCodeLenses_empty [of ?d2] h2
  show ?thesis by blast
qed

section \<open>Properties of source-to-markup resolution\<close>

lemma firstMatchingLine_SomeD:
  assumes "firstMatchingLine pat d = Some (i, m)"
  shows "i < lineCount d \<and> regexExec pat (docLines d ! i) 0 = Some m"
proof -
  from assms obtain j where
    f: "find (\<lambda>i. regexExec pat (docLines d ! i) 0 \<noteq> None) [0..<lineCount d] = Some j"
    by (auto simp: firstMatchingLine_def split: option.splits)
  then have "j \<in> set [0..<lineCount d]"
    unfolding find_Some_iff by (metis nth_mem)
  with assms f show ?thesis
    by (auto simp: firstMatchingLine_def split: option.splits)
qed

lemma literalAt_nth:
  assumes "literalAt lit s p" "k < length lit"
  shows "p + k < length s \<and> s ! (p + k) = lit ! k"
proof -
  from assms(1) have t: "take (length lit) (drop p s) = lit" and p: "p \<le> length s"
    by (simp_all add: literalAt_def startsWith_def)
  from arg_cong [OF t, of length] have "length lit \<le> length s - p"
    by simp
  with assms(2) p have lt: "p + k < length s" by arith
  from t have "take (length lit) (drop p s) ! k = lit ! k" by simp
  with assms(2) lt show ?thesis by simp
qed

text \<open>
  Wherever \<^verbatim>\<open>findEventHandlerInFxml\<close> returns a location, the character at the
  returned offset is the marker \<^verbatim>\<open>#\<close>; the method name starts one character later.
\<close>

lemma findEventHandlerInFxml_lands_on_marker:
  assumes "findEventHandlerInFxml d uri methodName = Some l"
  shows "posLine (locPos l) < lineCount d
     \<and> charAt (docLines d ! posLine (locPos l)) (posCharacter (locPos l)) = Some (CHR ''#'')
     \<and> literalAt methodName (docLines d ! posLine (locPos l)) (posCharacter (locPos l) + 1)"
proof -
  let ?lit = \<open>''="#'' @ methodName @ ''"''\<close>
  from assms obtain i m where fm: "firstMatchingLine (literalPattern ?lit) d = Some (i, m)"
    and l: "l = \<lparr>locUri = uri, locPos = \<lparr>posLine = i, posCharacter = m_index m + 2\<rparr>\<rparr>"
    by (auto simp: findEventHandlerInFxml_def split: option.splits)
  let ?s = "docLines d ! i"
  from firstMatchingLine_SomeD [OF fm] have i: "i < lineCount d"
    and ex: "regexExec (literalPattern ?lit) ?s 0 = Some m" by blast+
  from regexExec_SomeD [OF ex] obtain e where "literalPattern ?lit ?s (m_index m) = Some (e, m_group m)"
    by blast
  then have lit: "literalAt ?lit ?s (m_index m)"
    by (simp add: literalPattern_def split: if_splits)
  from literalAt_nth [OF lit, of 2] have c: "charAt ?s (m_index m + 2) = Some (CHR ''#'')"
    by (simp add: charAt_def)
  have "literalAt methodName ?s (m_index m + 3)"
  proof -
    from lit have t: "take (length ?lit) (drop (m_index m) ?s) = ?lit" and p: "m_index m \<le> length ?s"
      by (simp_all add: literalAt_def startsWith_def)
    from arg_cong [OF t, of length] have len: "length ?lit \<le> length ?s - m_index m"
      by simp
    from t have "drop 3 (take (length ?lit) (drop (m_index m) ?s)) = drop 3 ?lit" by simp
    then have "take (length methodName + 1) (drop (m_index m + 3) ?s) = methodName @ [CHR 0x22]"
      by (simp add: drop_take add.commute)
    then have "take (length methodName) (take (length methodName + 1) (drop (m_index m + 3) ?s)) = methodName"
      by simp
    then have "take (length methodName) (drop (m_index m + 3) ?s) = methodName"
      by (simp add: min_def)
    with len show ?thesis by (simp add: literalAt_def startsWith_def)
  qed
  with i c l show ?thesis by (simp add: numeral_3_eq_3)
qed

text \<open>
  Claim C1. At the markup line \<^verbatim>\<open><Button fx:id="ok" onAction="#handleClick"/>\<close> the
  source-to-markup resolution of the method \<^verbatim>\<open>handleClick\<close> returns offset 31, two
  characters after the \<^verbatim>\<open>=\<close> at offset 29: the character there is the marker
  \<^verbatim>\<open>#\<close>, and the method name starts at offset 32. The command \<^verbatim>\<open>goToFxml\<close>
  selects the same offset.
\<close>

theorem findEventHandlerInFxml_offset:
  \<open>findEventHandlerInFxml viewB ''b.fxml'' ''handleClick''
     = Some \<lparr>locUri = ''b.fxml'', locPos = \<lparr>posLine = 1, posCharacter = 31\<rparr>\<rparr>
   \<and> goToFxmlCommand exampleWorkspace ''pkg.C'' ''handleClick'' True
     = ShowTextDocument ''b.fxml'' \<lparr>posLine = 1, posCharacter = 31\<rparr>
   \<and> charAt (docLines viewB ! 1) 29 = Some (CHR ''='')
   \<and> charAt (docLines viewB ! 1) 31 = Some (CHR ''#'')
   \<and> substring (docLines viewB ! 1) 32 43 = ''handleClick''\<close>
  by code_simp


lemma findInFxmlFiles_loop_find:
  \<open>findInFxmlFiles_loop ws us cls name isMethod =
     (case find (\<lambda>u. includesStr (getText (openTextDocument ws u)) (''fx:controller="'' @ cls @ ''"'')
                    \<and> (if isMethod then findEventHandlerInFxml (openTextDocument ws u) u name
                        else findFxIdInFxml (openTextDocument ws u) u name) \<noteq> None) us of
        None \<Rightarrow> None
      | Some u \<Rightarrow> (if isMethod then findEventHandlerInFxml (openTextDocument ws u) u name
                   else findFxIdInFxml (openTextDocument ws u) u name))\<close>
  by (induction us) (auto simp: Let_def split: option.splits)

lemma goToFxmlCommand_loop_find:
  \<open>goToFxmlCommand_loop ws us cls name isMethod =
     (case find (\<lambda>u. includesStr (getText (openTextDocument ws u)) (''fx:controller="'' @ cls @ ''"'')
                    \<and> goToFxml_target (openTextDocument ws u) name isMethod \<noteq> None) us of
        None \<Rightarrow> ShowInformationMessage
                 (''No FXML reference found for '' @ [CHR 0x27] @ name @ [CHR 0x27] @ ''.'')
      | Some u \<Rightarrow> ShowTextDocument u (the (goToFxml_target (openTextDocument ws u) name isMethod)))\<close>
  by (induction us) (auto simp: Let_def split: option.splits)

text \<open>
  The claim C2 as stated fails: in the workspace \<open>exampleWorkspace\<close> the first document in
  discovery order names the controller and has no \<^verbatim>\<open>fx:id="ok"\<close>, and the result
  comes from the second document.
\<close>

theorem findInFxmlFiles_later_document:
  \<open>findFiles exampleWorkspace ''**/*.fxml'' = [''a.fxml'', ''b.fxml'']
   \<and> includesStr (getText (openTextDocument exampleWorkspace ''a.fxml'')) ''fx:controller="pkg.C"''
   \<and> findFxIdInFxml (openTextDocument exampleWorkspace ''a.fxml'') ''a.fxml'' ''ok'' = None
   \<and> includesStr (getText (openTextDocument exampleWorkspace ''b.fxml'')) ''fx:controller="pkg.C"''
   \<and> findInFxmlFiles exampleWorkspace ''pkg.C'' ''ok'' False
     = Some \<lparr>locUri = ''b.fxml'', locPos = \<lparr>posLine = 1, posCharacter = 10\<rparr>\<rparr>\<close>
  by code_simp

text \<open>
  Claim C2, amended. Source-side resolution returns the result of the first markup
  document, in discovery order, whose text contains the controller attribute and in
  which the member's attribute is found (the first matching line, top to bottom); a
  document that names the controller and lacks the attribute is passed over. Without
  such a document the result is none. The command \<^verbatim>\<open>goToFxml\<close> chooses the
  document in the same way.
\<close>

theorem findInFxmlFiles_first_hit:
  \<open>findInFxmlFiles ws cls name isMethod =
     (case find (\<lambda>u. includesStr (getText (openTextDocument ws u)) (''fx:controller="'' @ cls @ ''"'')
                    \<and> (if isMethod then findEventHandlerInFxml (openTextDocument ws u) u name
                        else findFxIdInFxml (openTextDocument ws u) u name) \<noteq> None)
             (findFiles ws ''**/*.fxml'') of
        None \<Rightarrow> None
      | Some u \<Rightarrow> (if isMethod then findEventHandlerInFxml (openTextDocument ws u) u name
                   else findFxIdInFxml (openTextDocument ws u) u name))
   \<and> goToFxmlCommand ws cls name isMethod =
     (case find (\<lambda>u. includesStr (getText (openTextDocument ws u)) (''fx:controller="'' @ cls @ ''"'')
                    \<and> goToFxml_target (openTextDocument ws u) name isMethod \<noteq> None)
             (findFiles ws ''**/*.fxml'') of
        None \<Rightarrow> ShowInformationMessage
                 (''No FXML reference found for '' @ [CHR 0x27] @ name @ [CHR 0x27] @ ''.'')
      | Some u \<Rightarrow> ShowTextDocument u (the (goToFxml_target (openTextDocument ws u) name isMethod)))\<close>
proof
  show \<open>findInFxmlFiles ws cls name isMethod =
     (case find (\<lambda>u. includesStr (getText (openTextDocument ws u)) (''fx:controller="'' @ cls @ ''"'')
                    \<and> (if isMethod then findEventHandlerInFxml (openTextDocument ws u) u name
                        else findFxIdInFxml (openTextDocument ws u) u name) \<noteq> None)
             (findFiles ws ''**/*.fxml'') of
        None \<Rightarrow> None
      | Some u \<Rightarrow> (if isMethod then findEventHandlerInFxml (openTextDocument ws u) u name
                   else findFxIdInFxml (openTextDocument ws u) u name))\<close>
    unfolding findInFxmlFiles_def by (rule findInFxmlFiles_loop_find)
next
  show \<open>goToFxmlCommand ws cls name isMethod =
     (case find (\<lambda>u. includesStr (getText (openTextDocument ws u)) (''fx:controller="'' @ cls @ ''"'')
                    \<and> goToFxml_target (openTextDocument ws u) name isMethod \<noteq> None)
             (findFiles ws ''**/*.fxml'') of
        None \<Rightarrow> ShowInformationMessage
                 (''No FXML reference found for '' @ [CHR 0x27] @ name @ [CHR 0x27] @ ''.'')
      | Some u \<Rightarrow> ShowTextDocument u (the (goToFxml_target (openTextDocument ws u) name isMethod)))\<close>
    unfolding goToFxmlCommand_def by (rule goToFxmlCommand_loop_find)
qed



theorem findInFxmlFiles_first_hit_witness:
  \<open>findInFxmlFiles exampleWorkspace ''pkg.C'' ''handleClick'' True
     = Some \<lparr>locUri = ''b.fxml'', locPos = \<lparr>posLine = 1, posCharacter = 31\<rparr>\<rparr>
   \<and> goToFxmlCommand exampleWorkspace ''pkg.C'' ''ok'' False
     = ShowTextDocument ''b.fxml'' \<lparr>posLine = 1, posCharacter = 10\<rparr>\<close>
proof
  show \<open>findInFxmlFiles exampleWorkspace ''pkg.C'' ''handleClick'' True
     = Some \<lparr>locUri = ''b.fxml'', locPos = \<lparr>posLine = 1, posCharacter = 31\<rparr>\<rparr>\<close>
    by (subst conjunct1 [OF findInFxmlFiles_first_hit]) code_simp
next
  show \<open>goToFxmlCommand exampleWorkspace ''pkg.C'' ''ok'' False
     = ShowTextDocument ''b.fxml'' \<lparr>posLine = 1, posCharacter = 10\<rparr>\<close>
    by (subst conjunct2 [OF findInFxmlFiles_first_hit]) code_simp
qed

section \<open>Properties of markup-to-source member resolution\<close>

lemma markerWithin2_iff:
  "markerWithin2 d i \<longleftrightarrow>
     markerLine d i \<or> (1 \<le> i \<and> markerLine d (i - 1)) \<or> (2 \<le> i \<and> markerLine d (i - 2))"
proof -
  have "set [0..<3] = {0, 1, 2::nat}" by auto
  then show ?thesis by (auto simp: markerWithin2_def)
qed

lemma tracked_window:
  assumes "trackerInv d i ann"
  defines "tracked \<equiv> (if markerLine d i then int i else ann)"
  shows "(0 \<le> tracked \<and> int i - tracked \<le> 2) \<longleftrightarrow> markerWithin2 d i"
proof (cases "markerLine d i")
  case True
  then show ?thesis by (simp add: tracked_def markerWithin2_iff)
next
  case False
  then have t: "tracked = ann" by (simp add: tracked_def)
  from assms(1) have a: "ann = - 1 \<or> (0 \<le> ann \<and> ann < int i \<and> markerLine d (nat ann))"
    and b: "\<And>j. j < i \<Longrightarrow> markerLine d j \<Longrightarrow> i - j \<le> 2 \<Longrightarrow> int j \<le> ann"
    by (auto simp: trackerInv_def)
  show ?thesis
  proof
    assume l: "0 \<le> tracked \<and> int i - tracked \<le> 2"
    with t a have m: "markerLine d (nat ann)" and lt: "ann < int i" and ge: "0 \<le> ann" by auto
    define k where "k = nat ann"
    from l t lt ge have k: "k < i" "i \<le> k + 2" by (simp_all add: k_def)
    then have "k = i - 1 \<and> 1 \<le> i \<or> k = i - 2 \<and> 2 \<le> i" by arith
    with m show "markerWithin2 d i" by (auto simp: markerWithin2_iff k_def)
  next
    assume "markerWithin2 d i"
    with False have "(1 \<le> i \<and> markerLine d (i - 1)) \<or> (2 \<le> i \<and> markerLine d (i - 2))"
      by (simp add: markerWithin2_iff)
    then obtain j where j: "j < i" "markerLine d j" "i - j \<le> 2"
    proof
      assume "1 \<le> i \<and> markerLine d (i - 1)"
      then have "i - 1 < i" "markerLine d (i - 1)" "i - (i - 1) \<le> 2" by auto
      then show ?thesis by (rule that)
    next
      assume "2 \<le> i \<and> markerLine d (i - 2)"
      then have "i - 2 < i" "markerLine d (i - 2)" "i - (i - 2) \<le> 2" by auto
      then show ?thesis by (rule that)
    qed
    from b [OF this] have "int j \<le> ann" .
    moreover with a have "ann < int i" by auto
    ultimately show "0 \<le> tracked \<and> int i - tracked \<le> 2" using t j by simp
  qed
qed

lemma trackerInv_step:
  assumes "trackerInv d i ann"
  defines "tracked \<equiv> (if markerLine d i then int i else ann)"
  defines "afterReset \<equiv> (if 0 \<le> tracked \<and> int i - tracked > 2 then - 1 else tracked)"
  shows "trackerInv d (Suc i) afterReset"
proof -
  from assms(1) have a: "ann = - 1 \<or> (0 \<le> ann \<and> ann < int i \<and> markerLine d (nat ann))"
    and b: "\<And>j. j < i \<Longrightarrow> markerLine d j \<Longrightarrow> i - j \<le> 2 \<Longrightarrow> int j \<le> ann"
    by (auto simp: trackerInv_def)
  have one: "afterReset = - 1 \<or> (0 \<le> afterReset \<and> afterReset < int (Suc i) \<and> markerLine d (nat afterReset))"
    using a by (auto simp: afterReset_def tracked_def)
  have two: "int j \<le> afterReset" if j: "j < Suc i" "markerLine d j" "Suc i - j \<le> 2" for j
  proof (cases "markerLine d i")
    case True
    then have "afterReset = int i" by (simp add: afterReset_def tracked_def)
    with j show ?thesis by simp
  next
    case False
    with j have ji: "j < i" by (cases "j = i") auto
    with j have "i - j \<le> 2" by simp
    from b [OF ji j(2) this] have ge: "int j \<le> ann" .
    from j ji have "i - j \<le> 1" by simp
    with ge ji have "int i - ann \<le> 2" by simp
    with False ge show ?thesis by (simp add: afterReset_def tracked_def)
  qed
  from one two show ?thesis by (auto simp: trackerInv_def)
qed

lemma trackerInv_start: "trackerInv d 0 (- 1)"
  by (simp add: trackerInv_def)

lemma findMemberInJavaFile_loop_step:
  assumes "i < lineCount d"
    and "tracked = (if markerLine d i then int i else ann)"
    and "afterReset = (if 0 \<le> tracked \<and> int i - tracked > 2 then - 1 else tracked)"
  shows "findMemberInJavaFile_loop d uri memberName isMethod i ann bestMatch =
     (case regexExec (if isMethod then methodNamed memberName else fieldNamed memberName)
             (docLines d ! i) 0 of
        None \<Rightarrow> findMemberInJavaFile_loop d uri memberName isMethod (Suc i) afterReset bestMatch
      | Some m \<Rightarrow>
          if 0 \<le> tracked \<and> int i - tracked \<le> 2
          then Some \<lparr>locUri = uri, locPos = \<lparr>posLine = i, posCharacter = m_index m\<rparr>\<rparr>
          else findMemberInJavaFile_loop d uri memberName isMethod (Suc i) afterReset
                 (if bestMatch = None
                  then Some \<lparr>locUri = uri, locPos = \<lparr>posLine = i, posCharacter = m_index m\<rparr>\<rparr>
                  else bestMatch))"
  unfolding assms(2,3) markerLine_def
  by (subst findMemberInJavaFile_loop.simps) (simp only: assms(1) if_True Let_def Suc_eq_plus1)

lemma findMemberInJavaFile_loop_preferred:
  assumes "trackerInv d i ann"
  shows "findMemberInJavaFile_loop d uri memberName isMethod i ann bestMatch
           = preferredMatch d uri memberName isMethod i bestMatch"
  using assms
proof (induction "lineCount d - i" arbitrary: i ann bestMatch)
  case 0
  then have "[i..<lineCount d] = []" by simp
  with 0 show ?case
    by (subst findMemberInJavaFile_loop.simps) (simp add: preferredMatch_def split: option.splits)
next
  case (Suc n)
  then have lt: "i < lineCount d" by simp
  then have upt: "[i..<lineCount d] = i # [Suc i..<lineCount d]" by (rule upt_conv_Cons)
  define tracked where "tracked = (if markerLine d i then int i else ann)"
  define afterReset where "afterReset = (if 0 \<le> tracked \<and> int i - tracked > 2 then - 1 else tracked)"
  from Suc.prems have win: "(0 \<le> tracked \<and> int i - tracked \<le> 2) \<longleftrightarrow> markerWithin2 d i"
    unfolding tracked_def by (rule tracked_window)
  from Suc.prems have inv: "trackerInv d (Suc i) afterReset"
    unfolding afterReset_def tracked_def by (rule trackerInv_step)
  from Suc.hyps(2) have n: "n = lineCount d - Suc i" by simp
  note IH = Suc.hyps(1) [OF n inv]
  note step = findMemberInJavaFile_loop_step [OF lt tracked_def afterReset_def,
      of uri memberName isMethod bestMatch]
  let ?pat = "if isMethod then methodNamed memberName else fieldNamed memberName"
  show ?case
  proof (cases "regexExec ?pat (docLines d ! i) 0")
    case None
    then have nsm: "\<not> structuralMatch d memberName isMethod i" by (simp add: structuralMatch_def)
    have "findMemberInJavaFile_loop d uri memberName isMethod i ann bestMatch
            = findMemberInJavaFile_loop d uri memberName isMethod (Suc i) afterReset bestMatch"
      using None by (simp add: step)
    also have "\<dots> = preferredMatch d uri memberName isMethod (Suc i) bestMatch" by (rule IH)
    also have "\<dots> = preferredMatch d uri memberName isMethod i bestMatch"
      using nsm by (auto simp: preferredMatch_def upt split: option.splits)
    finally show ?thesis .
  next
    case (Some m)
    then have sm: "structuralMatch d memberName isMethod i" by (simp add: structuralMatch_def)
    from Some have loc: "matchLocation d uri memberName isMethod i
        = Some \<lparr>locUri = uri, locPos = \<lparr>posLine = i, posCharacter = m_index m\<rparr>\<rparr>"
      by (simp add: matchLocation_def)
    show ?thesis
    proof (cases "markerWithin2 d i")
      case True
      with win have w: "0 \<le> tracked \<and> int i - tracked \<le> 2" by simp
      have "findMemberInJavaFile_loop d uri memberName isMethod i ann bestMatch
            = Some \<lparr>locUri = uri, locPos = \<lparr>posLine = i, posCharacter = m_index m\<rparr>\<rparr>"
        using Some by (simp add: step w)
      also have "\<dots> = preferredMatch d uri memberName isMethod i bestMatch"
        using sm True loc by (auto simp: preferredMatch_def upt split: option.splits)
      finally show ?thesis .
    next
      case False
      with win have w: "\<not> (0 \<le> tracked \<and> int i - tracked \<le> 2)" by simp
      have "findMemberInJavaFile_loop d uri memberName isMethod i ann bestMatch
            = findMemberInJavaFile_loop d uri memberName isMethod (Suc i) afterReset
                (if bestMatch = None
                 then Some \<lparr>locUri = uri, locPos = \<lparr>posLine = i, posCharacter = m_index m\<rparr>\<rparr>
                 else bestMatch)"
        using Some by (simp add: step w)
      also have "\<dots> = preferredMatch d uri memberName isMethod (Suc i)
                (if bestMatch = None
                 then Some \<lparr>locUri = uri, locPos = \<lparr>posLine = i, posCharacter = m_index m\<rparr>\<rparr>
                 else bestMatch)"
        by (rule IH)
      also have "\<dots> = preferredMatch d uri memberName isMethod i bestMatch"
        using sm False loc by (auto simp: preferredMatch_def upt split: option.splits)
      finally show ?thesis .
    qed
  qed
qed

text \<open>
  What \<^verbatim>\<open>findMemberInJavaFile\<close> computes: the first structural match that has a line
  whose trimmed content starts with \<^verbatim>\<open>@FXML\<close> at most two lines above it (or is such
  a line itself), whatever stands between the two; without such a match the textually
  first structural match; and none when there is no structural match.
\<close>

lemma findMemberInJavaFile_window_rule:
  "findMemberInJavaFile d uri memberName isMethod =
     (case find (\<lambda>k. structuralMatch d memberName isMethod k \<and> markerWithin2 d k) [0..<lineCount d] of
        Some k \<Rightarrow> matchLocation d uri memberName isMethod k
      | None \<Rightarrow>
          (case find (structuralMatch d memberName isMethod) [0..<lineCount d] of
             Some k \<Rightarrow> matchLocation d uri memberName isMethod k
           | None \<Rightarrow> None))"
  unfolding findMemberInJavaFile_def
  by (auto simp: findMemberInJavaFile_loop_preferred [OF trackerInv_start] preferredMatch_def
        split: option.splits)

lemma findMemberInJavaFile_window_rule_example:
  "structuralMatch controllerC ''ok'' False 3 \<and> \<not> markerWithin2 controllerC 3
   \<and> structuralMatch controllerC ''ok'' False 7 \<and> markerWithin2 controllerC 7
   \<and> findMemberInJavaFile controllerC ''src/pkg/C.java'' ''ok'' False
     = Some \<lparr>locUri = ''src/pkg/C.java'', locPos = \<lparr>posLine = 7, posCharacter = 19\<rparr>\<rparr>"
  by code_simp

text \<open>
  Claim C3. In \<open>controllerF\<close> the declaration \<^verbatim>\<open>private int x = 0;\<close> on line 2 is
  not annotated (the backward annotation check answers false for it: the line above
  it is the declaration that the marker on line 0 belongs to), and the declaration
  \<^verbatim>\<open>private Button x;\<close> on line 5 is annotated. \<^verbatim>\<open>findMemberInJavaFile\<close> returns
  line 2, because the marker on line 0 is two lines above it: the annotated match
  does not dominate the earlier unannotated one. In \<open>controllerG\<close> the annotated
  declaration \<^verbatim>\<open>private @FXML Button x;\<close> on line 3 loses to the unannotated line 0,
  because the marker does not lead its line.
\<close>

theorem findMemberInJavaFile_returns_unannotated:
  "structuralMatch controllerF ''x'' False 2 \<and> isFxmlAnnotated controllerF 2 = Inr False
   \<and> structuralMatch controllerF ''x'' False 5 \<and> isFxmlAnnotated controllerF 5 = Inr True
   \<and> findMemberInJavaFile controllerF ''F.java'' ''x'' False
     = Some \<lparr>locUri = ''F.java'', locPos = \<lparr>posLine = 2, posCharacter = 12\<rparr>\<rparr>
   \<and> structuralMatch controllerG ''x'' False 0 \<and> isFxmlAnnotated controllerG 0 = Inr False
   \<and> structuralMatch controllerG ''x'' False 3 \<and> isFxmlAnnotated controllerG 3 = Inr True
   \<and> findMemberInJavaFile controllerG ''G.java'' ''x'' False
     = Some \<lparr>locUri = ''G.java'', locPos = \<lparr>posLine = 0, posCharacter = 4\<rparr>\<rparr>"
  by code_simp

section \<open>Properties of marker detection\<close>

lemma isFxmlAnnotated_loop_zero: "isFxmlAnnotated_loop d 0 (Suc 0) = Inr False"
  by (subst isFxmlAnnotated_loop.simps) simp

lemma isFxmlAnnotated_iff:
  assumes "n < lineCount d"
  shows "isFxmlAnnotated d n =
     Inr (includesStr (docLines d ! n) ''@FXML''
          \<or> (1 \<le> n \<and> markerLine d (n - 1))
          \<or> (2 \<le> n \<and> (trim (docLines d ! (n - 1)) = [] \<or> startsWith (trim (docLines d ! (n - 1))) ''@'')
              \<and> markerLine d (n - 2)))"
proof (cases "includesStr (docLines d ! n) ''@FXML''")
  case True
  with assms show ?thesis by (simp add: isFxmlAnnotated_current)
next
  case False
  with assms have u: "isFxmlAnnotated d n = isFxmlAnnotated_loop d n (Suc 0)"
    by (simp add: isFxmlAnnotated_unfold)
  show ?thesis
  proof (cases "n = 0")
    case True
    with u False show ?thesis by (simp add: isFxmlAnnotated_loop_zero)
  next
    case n0: False
    then have n1: "Suc 0 \<le> n" by simp
    show ?thesis
    proof (cases "2 \<le> n")
      case True
      with u False assms n1 show ?thesis
        by (auto simp: loop_step1 loop_step2 markerLine_def dest: startsWith_FXML_at)
    next
      case n2: False
      then have "n < 2" by simp
      with u False assms n1 show ?thesis
        by (auto simp: loop_step1 loop_step2_short markerLine_def dest: startsWith_FXML_at)
    qed
  qed
qed

lemma findMemberInJavaFile_no_marker:
  assumes "\<forall>i<lineCount d. \<not> markerLine d i"
  shows "findMemberInJavaFile d uri memberName isMethod =
     (case find (structuralMatch d memberName isMethod) [0..<lineCount d] of
        Some k \<Rightarrow> matchLocation d uri memberName isMethod k
      | None \<Rightarrow> None)"
proof -
  have "\<not> markerWithin2 d k" if "k < lineCount d" for k
    using that assms by (auto simp: markerWithin2_iff)
  then have "find (\<lambda>k. structuralMatch d memberName isMethod k \<and> markerWithin2 d k) [0..<lineCount d] = None"
    by (auto simp: find_None_iff)
  then show ?thesis
    by (simp add: findMemberInJavaFile_loop_preferred [OF trackerInv_start] findMemberInJavaFile_def
        preferredMatch_def)
qed

lemma codeLensAt_marker:
  assumes "codeLensAt d cls i = Some l"
  shows "lensLine l = i \<and> markerLine d i"
  using assms
  by (auto simp: codeLensAt_def Let_def markerLine_def split: if_splits option.splits)

lemma map_filter_mem:
  "y \<in> set (List.map_filter f xs) \<Longrightarrow> \<exists>x \<in> set xs. f x = Some y"
  by (induction xs) (auto split: option.splits)

lemma provideCodeLenses_marker:
  assumes "l \<in> set (provideCodeLenses d)"
  shows "lensLine l < lineCount d \<and> markerLine d (lensLine l)"
proof -
  from assms obtain cls where "l \<in> set (List.map_filter (codeLensAt d cls) [0..<lineCount d])"
    by (auto simp: provideCodeLenses_def split: if_splits option.splits)
  from map_filter_mem [OF this] obtain i where "i < lineCount d" "codeLensAt d cls i = Some l"
    by auto
  with codeLensAt_marker show ?thesis by blast
qed

text \<open>
  The claim C5 as stated fails for the cursor's own line in the backward annotation
  check: line 2 of \<open>controllerD\<close> is a comment that mentions \<^verbatim>\<open>@FXML\<close>, its trimmed
  content does not start with the marker, and the check answers true for it.
\<close>

theorem isFxmlAnnotated_marker_anywhere:
  "docLines controllerD ! 2 = ''    // the @FXML fields''
   \<and> \<not> startsWith (trim (docLines controllerD ! 2)) ''@FXML''
   \<and> \<not> markerLine controllerD 1 \<and> \<not> markerLine controllerD 0
   \<and> isFxmlAnnotated controllerD 2 = Inr True"
  by code_simp

text \<open>
  Claim C5, amended. The marker is recognized by its leading position, a trimmed line
  that starts with \<^verbatim>\<open>@FXML\<close>, wherever a line other than the cursor's own line is
  examined: the backward annotation check takes the lines above the cursor's line
  into account only through this test, the markup-to-source member search of a document
  without such a line returns the textually first structural match, and every CodeLens
  of the navigation index is anchored at such a line. Only on the cursor's own line
  does the backward annotation check accept \<^verbatim>\<open>@FXML\<close> anywhere in the line.
\<close>

theorem marker_leading_position:
  "(n < lineCount d \<longrightarrow>
      isFxmlAnnotated d n =
        Inr (includesStr (docLines d ! n) ''@FXML''
             \<or> (1 \<le> n \<and> markerLine d (n - 1))
             \<or> (2 \<le> n \<and> (trim (docLines d ! (n - 1)) = []
                            \<or> startsWith (trim (docLines d ! (n - 1))) ''@'')
                 \<and> markerLine d (n - 2))))
   \<and> ((\<forall>i<lineCount d. \<not> markerLine d i) \<longrightarrow>
        findMemberInJavaFile d uri memberName isMethod =
          (case find (structuralMatch d memberName isMethod) [0..<lineCount d] of
             Some k \<Rightarrow> matchLocation d uri memberName isMethod k
           | None \<Rightarrow> None))
   \<and> (\<forall>l \<in> set (provideCodeLenses d). lensLine l < lineCount d \<and> markerLine d (lensLine l))"
  using isFxmlAnnotated_iff [of n d] findMemberInJavaFile_no_marker [of d uri memberName isMethod]
    provideCodeLenses_marker [of _ d]
  by blast

theorem marker_leading_position_witness:
  "isFxmlAnnotated controllerD 3 = Inr False
   \<and> findMemberInJavaFile controllerD ''src/D.java'' ''ok'' False
     = Some \<lparr>locUri = ''src/D.java'', locPos = \<lparr>posLine = 3, posCharacter = 19\<rparr>\<rparr>
   \<and> map lensLine (provideCodeLenses controllerC) = [6, 8]
   \<and> markerLine controllerC 6 \<and> markerLine controllerC 8"
proof -
  have h1: "3 < lineCount controllerD" by code_simp
  have h2: "\<forall>i<lineCount controllerD. \<not> markerLine controllerD i"
  proof (intro allI impI)
    fix i assume "i < lineCount controllerD"
    then have "i < 5" by (simp add: lineCount_def controllerD_def)
    then have "i = 0 \<or> i = 1 \<or> i = 2 \<or> i = 3 \<or> i = 4" by arith
    then show "\<not> markerLine controllerD i"
      by (elim disjE) (simp_all, code_simp+)
  qed
  have l: "map lensLine (provideCodeLenses controllerC) = [6, 8]" by code_simp
  note t1 = marker_leading_position [of 3 controllerD "''src/D.java''" "''ok''" False]
  note t2 = marker_leading_position [of 0 controllerC "''src/pkg/C.java''" "''ok''" False]
  from t1 h1 have "isFxmlAnnotated controllerD 3 =
        Inr (includesStr (docLines controllerD ! 3) ''@FXML''
             \<or> (1 \<le> (3::nat) \<and> markerLine controllerD (3 - 1))
             \<or> (2 \<le> (3::nat) \<and> (trim (docLines controllerD ! (3 - 1)) = []
                            \<or> startsWith (trim (docLines controllerD ! (3 - 1))) ''@'')
                 \<and> markerLine controllerD (3 - 2)))"
    by blast
  also have "\<dots> = Inr False" by code_simp
  finally have a: "isFxmlAnnotated controllerD 3 = Inr False" .
  from t1 h2 have "findMemberInJavaFile controllerD ''src/D.java'' ''ok'' False =
          (case find (structuralMatch controllerD ''ok'' False) [0..<lineCount controllerD] of
             Some k \<Rightarrow> matchLocation controllerD ''src/D.java'' ''ok'' False k
           | None \<Rightarrow> None)"
    by blast
  also have "\<dots> = Some \<lparr>locUri = ''src/D.java'', locPos = \<lparr>posLine = 3, posCharacter = 19\<rparr>\<rparr>"
    by code_simp
  finally have b: "findMemberInJavaFile controllerD ''src/D.java'' ''ok'' False
     = Some \<lparr>locUri = ''src/D.java'', locPos = \<lparr>posLine = 3, posCharacter = 19\<rparr>\<rparr>" .
  from t2 have "\<forall>l \<in> set (provideCodeLenses controllerC). markerLine controllerC (lensLine l)"
    by blast
  then have "\<forall>k \<in> set (map lensLine (provideCodeLenses controllerC)). markerLine controllerC k"
    by simp
  with l have c: "markerLine controllerC 6 \<and> markerLine controllerC 8" by simp
  from a b l c show ?thesis by simp
qed

section \<open>Properties of identifier extraction\<close>












lemma getMemberNameAtPosition_example:
  "getMemberNameAtPosition ''    private Button okButton;'' 20 = Some ''okButton''
   \<and> getMemberNameAtPosition ''    private Button okButton;'' 27 = None
   \<and> getMemberNameAtPosition ''int a$, $b;'' 4 = Some ''a''"
  by code_simp

section \<open>Outcomes of definition resolution\<close>



















text \<open>
  On a host that never rejects, the search over the markup documents is the search
  of \<open>findInFxmlFiles\<close>.
\<close>

lemma hostOf_calls:
  "hostFindFiles (hostOf ws) glob = Some (findFiles ws glob)"
  "hostOpenTextDocument (hostOf ws) u = Some (openTextDocument ws u)"
  by (simp_all add: hostOf_def)

lemma findInFxmlFiles_host_loop_hostOf:
  "findInFxmlFiles_host_loop (hostOf ws) us cls name isMethod
     = Inr (findInFxmlFiles_loop ws us cls name isMethod)"
  by (induction us)
     (auto simp: hostOf_calls awaitOpenTextDocument_def Let_def split: option.splits)

lemma findInFxmlFiles_host_hostOf:
  "findInFxmlFiles_host (hostOf ws) cls name isMethod = Inr (findInFxmlFiles ws cls name isMethod)"
  by (simp add: findInFxmlFiles_host_def findInFxmlFiles_def findInFxmlFiles_host_loop_hostOf
      awaitFindFiles_def hostOf_calls)







text \<open>
  For a line outside the document \<^verbatim>\<open>lineAt\<close> raises, in both functions before
  anything else is done.
\<close>

lemma provideDefinition_outside_document:
  assumes "\<not> posLine pos < lineCount d"
  shows "FxmlDefinitionProvider_provideDefinition host d pos = Inl IllegalLine
     \<and> ControllerDefinitionProvider_provideDefinition host d pos = Inl IllegalLine"
  using assms
  by (simp add: FxmlDefinitionProvider_provideDefinition_def
      ControllerDefinitionProvider_provideDefinition_def lineAt_def)




section \<open>The formatter on an unclosed comment\<close>

text \<open>
  Claim C9. The text \<^verbatim>\<open>a<!--\<close> has a comment that is not closed. \<^verbatim>\<open>tokenize\<close>
  pushes the text before the comment twice, \<^verbatim>\<open>formatXml\<close> prints it twice, and
  formatting the result again prints it four times: the formatter is not idempotent
  at this input, and \<^verbatim>\<open>formatRange\<close> returns an edit for the formatted text.
\<close>

theorem formatXml_not_idempotent:
  "tokenize ''a<!--'' = [''a'', ''a'', ''<!--'']
   \<and> formatXml ''a<!--'' \<lparr>insertSpaces = True, tabSize = 4\<rparr> = ''a\<newline>a\<newline><!--\<newline>''
   \<and> formatXml (formatXml ''a<!--'' \<lparr>insertSpaces = True, tabSize = 4\<rparr>)
         \<lparr>insertSpaces = True, tabSize = 4\<rparr> = ''a\<newline>a\<newline>a\<newline>a\<newline><!--\<newline>''
   \<and> formatXml (formatXml ''a<!--'' \<lparr>insertSpaces = True, tabSize = 4\<rparr>)
         \<lparr>insertSpaces = True, tabSize = 4\<rparr>
       \<noteq> formatXml ''a<!--'' \<lparr>insertSpaces = True, tabSize = 4\<rparr>
   \<and> formatRange (formatXml ''a<!--'' \<lparr>insertSpaces = True, tabSize = 4\<rparr>)
         \<lparr>insertSpaces = True, tabSize = 4\<rparr>
       = [''a\<newline>a\<newline>a\<newline>a\<newline><!--\<newline>'']"
  by code_simp

lemma formatXml_example:
  "formatXml ''<VBox><Button text=\"ok\"/>  <!-- note --></VBox>'' \<lparr>insertSpaces = True, tabSize = 2\<rparr>
     = ''<VBox>\<newline>  <Button text=\"ok\"/>\<newline>  <!-- note -->\<newline></VBox>\<newline>''
   \<and> formatXml ''<VBox>\<newline>  <Button text=\"ok\"/>\<newline>  <!-- note -->\<newline></VBox>\<newline>''
         \<lparr>insertSpaces = True, tabSize = 2\<rparr>
     = ''<VBox>\<newline>  <Button text=\"ok\"/>\<newline>  <!-- note -->\<newline></VBox>\<newline>''
   \<and> formatRange ''<VBox>\<newline>  <Button text=\"ok\"/>\<newline>  <!-- note -->\<newline></VBox>\<newline>''
         \<lparr>insertSpaces = True, tabSize = 2\<rparr> = []"
  by code_simp

end
